theory Spec2Isabelle
  imports Complex_Main "HOL-Library.Multiset" "HOL-Library.Product_Lexorder"
begin

section \<open>JavaScript library functions used by the sources\<close>

text \<open>
  \<^verbatim>\<open>Array.prototype.sort(compareFn)\<close>. ECMAScript requires the sort to be stable, and for
  a comparator that is a consistent ordering the result is determined by that alone:
  elements in comparator order, equal elements in their input order. The model is the
  stable insertion sort that computes this list. The comparator returns a number; only
  its sign is read.
\<close>

fun js_insert :: "('a \<Rightarrow> 'a \<Rightarrow> 'n::linordered_idom) \<Rightarrow> 'a \<Rightarrow> 'a list \<Rightarrow> 'a list" where
  "js_insert cmp x [] = [x]"
| "js_insert cmp x (y # ys) = (if cmp x y \<le> 0 then x # y # ys else y # js_insert cmp x ys)"

definition js_sort :: "('a \<Rightarrow> 'a \<Rightarrow> 'n::linordered_idom) \<Rightarrow> 'a list \<Rightarrow> 'a list" where
  "js_sort cmp xs = foldr (js_insert cmp) xs []"

text \<open>\<^verbatim>\<open>Math.ceil(a / b)\<close> for integers \<open>a\<close> and \<open>b > 0\<close>.\<close>

definition ceil_div :: "int \<Rightarrow> int \<Rightarrow> int" where
  "ceil_div a b = - ((- a) div b)"

section \<open>Domain entities\<close>

text \<open>
  Dates are milliseconds since the epoch (\<^verbatim>\<open>Date.getTime()\<close>), quantities are whole
  units. Optional fields are options.
\<close>

datatype LotStatus = AVAILABLE | QUARANTINE | EXPIRED | HOLD | RELEASED

record LotBatch =
  lot_id :: string
  lot_tenantId :: string
  lot_productId :: string
  lotNumber :: string
  expirationDate :: "int option"
  receivedAt :: int
  lot_status :: LotStatus

record StockLevel =
  sl_id :: string
  tenantId :: string
  warehouseId :: string
  productId :: string
  variantId :: "string option"
  locationId :: string
  lotBatchId :: "string option"
  quantityOnHand :: int
  quantityReserved :: int
  quantityAvailable :: int
  quantityInbound :: int
  quantityOutbound :: int
  lastMovementAt :: "int option"
  rowVersion :: int

subsection \<open>entities/lot-batch.ts\<close>

definition isLotExpired :: "LotBatch \<Rightarrow> int \<Rightarrow> bool" where
  "isLotExpired lot refDate =
     (case expirationDate lot of None \<Rightarrow> False | Some e \<Rightarrow> e < refDate)"

definition isLotAvailable :: "LotBatch \<Rightarrow> int \<Rightarrow> bool" where
  "isLotAvailable lot refDate =
     (if lot_status lot \<noteq> AVAILABLE \<and> lot_status lot \<noteq> RELEASED then False
      else \<not> isLotExpired lot refDate)"

definition compareLotsByFEFO :: "LotBatch \<Rightarrow> LotBatch \<Rightarrow> int" where
  "compareLotsByFEFO a b =
     (case (expirationDate a, expirationDate b) of
        (None, None) \<Rightarrow> receivedAt a - receivedAt b
      | (None, Some eb) \<Rightarrow> 1
      | (Some ea, None) \<Rightarrow> - 1
      | (Some ea, Some eb) \<Rightarrow> ea - eb)"

subsection \<open>entities/stock-level.ts\<close>

definition calculateAvailableQuantity :: "int \<Rightarrow> int \<Rightarrow> int" where
  "calculateAvailableQuantity onHand reserved = max 0 (onHand - reserved)"

section \<open>rules/fefo-allocator.ts\<close>

record AllocationRequest =
  req_productId :: string
  req_variantId :: "string option"
  requestedQuantity :: int
  req_warehouseId :: string
  referenceType :: string
  referenceId :: string
  preferredLocations :: "string list option"
  excludedLots :: "string list option"
  req_minDaysToExpiration :: "int option"

record InventorySource =
  stockLevel :: StockLevel
  lotBatch :: "LotBatch option"

record AllocationLine =
  al_stockLevelId :: string
  al_locationId :: string
  al_lotBatchId :: "string option"
  al_lotNumber :: "string option"
  al_expirationDate :: "int option"
  quantity :: int
  daysToExpiration :: "int option"

text \<open>The reason strings of the source, with the interpolated value as an argument.\<close>

datatype SkipReason =
    NoAvailableQuantity
  | LotNotAvailable LotStatus
  | TooCloseToExpiration int
  | LotExcludedByRequest

record SkippedSource =
  reason :: SkipReason
  sk_stockLevelId :: string
  sk_lotBatchId :: "string option"

record AllocationResult =
  success :: bool
  fullyAllocated :: bool
  res_requestedQuantity :: int
  allocatedQuantity :: int
  shortfallQuantity :: int
  allocations :: "AllocationLine list"
  skippedSources :: "SkippedSource list"

text \<open>The two private fields of the class \<^verbatim>\<open>FefoAllocator\<close>.\<close>

record FefoAllocator =
  minDaysToExpiration :: int
  referenceDate :: int

record FefoOptions =
  opt_minDaysToExpiration :: "int option"
  opt_referenceDate :: "int option"

text \<open>The constructor; \<open>now\<close> is the value of \<^verbatim>\<open>new Date()\<close>.\<close>

definition new_FefoAllocator :: "FefoOptions \<Rightarrow> int \<Rightarrow> FefoAllocator" where
  "new_FefoAllocator options now =
     \<lparr> minDaysToExpiration = (case opt_minDaysToExpiration options of None \<Rightarrow> 0 | Some d \<Rightarrow> d),
       referenceDate = (case opt_referenceDate options of None \<Rightarrow> now | Some d \<Rightarrow> d) \<rparr>"

definition calculateDaysToExpiration :: "FefoAllocator \<Rightarrow> int \<Rightarrow> int" where
  "calculateDaysToExpiration this expDate =
     ceil_div (expDate - referenceDate this) (1000 * 60 * 60 * 24)"

text \<open>\<^verbatim>\<open>request.preferredLocations?.includes(loc) ?? false\<close>\<close>

definition isPreferred :: "AllocationRequest \<Rightarrow> InventorySource \<Rightarrow> bool" where
  "isPreferred request a =
     (case preferredLocations request of
        None \<Rightarrow> False
      | Some locs \<Rightarrow> locationId (stockLevel a) \<in> set locs)"

text \<open>The filter predicate on product, warehouse and variant.\<close>

definition matchesRequest :: "AllocationRequest \<Rightarrow> InventorySource \<Rightarrow> bool" where
  "matchesRequest request s =
     (productId (stockLevel s) = req_productId request \<and>
      warehouseId (stockLevel s) = req_warehouseId request \<and>
      (case req_variantId request of
         None \<Rightarrow> True
       | Some v \<Rightarrow> v = [] \<or> variantId (stockLevel s) = Some v))"

text \<open>The comparator of the first sort, run only when preferred locations are given.\<close>

definition comparePreferred :: "AllocationRequest \<Rightarrow> InventorySource \<Rightarrow> InventorySource \<Rightarrow> int" where
  "comparePreferred request a b =
     (let aPreferred = isPreferred request a; bPreferred = isPreferred request b in
      if aPreferred \<and> \<not> bPreferred then - 1
      else if \<not> aPreferred \<and> bPreferred then 1
      else 0)"

text \<open>The comparator of the second sort.\<close>

definition compareSources :: "AllocationRequest \<Rightarrow> InventorySource \<Rightarrow> InventorySource \<Rightarrow> int" where
  "compareSources request a b =
     (let aPreferred = isPreferred request a; bPreferred = isPreferred request b in
      if aPreferred \<noteq> bPreferred then (if aPreferred then - 1 else 1)
      else (case (lotBatch a, lotBatch b) of
              (Some la, Some lb) \<Rightarrow> compareLotsByFEFO la lb
            | (Some la, None) \<Rightarrow> - 1
            | (None, Some lb) \<Rightarrow> 1
            | (None, None) \<Rightarrow> 0))"

definition filterAndSortSources :: "InventorySource list \<Rightarrow> AllocationRequest \<Rightarrow> InventorySource list" where
  "filterAndSortSources sources request =
     (let filtered = filter (matchesRequest request) sources;
          filtered = (case preferredLocations request of
                        None \<Rightarrow> filtered
                      | Some locs \<Rightarrow> if locs = [] then filtered
                                     else js_sort (comparePreferred request) filtered)
      in js_sort (compareSources request) filtered)"

text \<open>The state of the loop in \<^verbatim>\<open>allocate\<close>: the three local variables.\<close>

record AllocState =
  remainingQty :: int
  st_allocations :: "AllocationLine list"
  st_skipped :: "SkippedSource list"

text \<open>
  The expiration check of the loop body: the days to expiration when they are below the
  allocator's minimum.
\<close>

definition tooCloseToExpiration :: "FefoAllocator \<Rightarrow> LotBatch \<Rightarrow> int option" where
  "tooCloseToExpiration this lot =
     (case expirationDate lot of
        None \<Rightarrow> None
      | Some e \<Rightarrow>
          (let daysToExp = calculateDaysToExpiration this e in
           if daysToExp < minDaysToExpiration this then Some daysToExp else None))"

text \<open>
  The reason for which the loop body skips a source, if any: the four checks in the
  order of the source.
\<close>

definition skipReason :: "FefoAllocator \<Rightarrow> AllocationRequest \<Rightarrow> InventorySource \<Rightarrow> SkipReason option" where
  "skipReason this request source =
     (if quantityAvailable (stockLevel source) \<le> 0 then Some NoAvailableQuantity
      else case lotBatch source of
        None \<Rightarrow> None
      | Some lot \<Rightarrow>
          if \<not> isLotAvailable lot (referenceDate this) then Some (LotNotAvailable (lot_status lot))
          else (case tooCloseToExpiration this lot of
                  Some daysToExp \<Rightarrow> Some (TooCloseToExpiration daysToExp)
                | None \<Rightarrow>
                    (if (case excludedLots request of
                           None \<Rightarrow> False
                         | Some ex \<Rightarrow> lot_id lot \<in> set ex)
                     then Some LotExcludedByRequest
                     else None)))"

definition makeLine :: "FefoAllocator \<Rightarrow> InventorySource \<Rightarrow> int \<Rightarrow> AllocationLine" where
  "makeLine this source allocateQty =
     \<lparr> al_stockLevelId = sl_id (stockLevel source),
       al_locationId = locationId (stockLevel source),
       al_lotBatchId = map_option lot_id (lotBatch source),
       al_lotNumber = map_option lotNumber (lotBatch source),
       al_expirationDate = Option.bind (lotBatch source) expirationDate,
       quantity = allocateQty,
       daysToExpiration =
         map_option (calculateDaysToExpiration this) (Option.bind (lotBatch source) expirationDate) \<rparr>"

text \<open>One pass of the loop body, after the \<^verbatim>\<open>break\<close> test.\<close>

definition allocateStep :: "FefoAllocator \<Rightarrow> AllocationRequest \<Rightarrow> InventorySource \<Rightarrow> AllocState \<Rightarrow> AllocState" where
  "allocateStep this request source st =
     (case skipReason this request source of
        Some r \<Rightarrow>
          st\<lparr> st_skipped := st_skipped st @
                 [\<lparr> reason = r, sk_stockLevelId = sl_id (stockLevel source),
                    sk_lotBatchId = map_option lot_id (lotBatch source) \<rparr>] \<rparr>
      | None \<Rightarrow>
          (let allocateQty = min (remainingQty st) (quantityAvailable (stockLevel source)) in
           st\<lparr> st_allocations := st_allocations st @ [makeLine this source allocateQty],
               remainingQty := remainingQty st - allocateQty \<rparr>))"

fun allocateLoop :: "FefoAllocator \<Rightarrow> AllocationRequest \<Rightarrow> InventorySource list \<Rightarrow> AllocState \<Rightarrow> AllocState" where
  "allocateLoop this request [] st = st"
| "allocateLoop this request (source # rest) st =
     (if remainingQty st \<le> 0 then st
      else allocateLoop this request rest (allocateStep this request source st))"

definition allocate :: "FefoAllocator \<Rightarrow> AllocationRequest \<Rightarrow> InventorySource list \<Rightarrow> AllocationResult" where
  "allocate this request sources =
     (let validSources = filterAndSortSources sources request;
          st = allocateLoop this request validSources
                 \<lparr> remainingQty = requestedQuantity request, st_allocations = [], st_skipped = [] \<rparr>;
          allocatedQty = requestedQuantity request - remainingQty st
      in \<lparr> success = (allocatedQty > 0),
           fullyAllocated = (remainingQty st = 0),
           res_requestedQuantity = requestedQuantity request,
           allocatedQuantity = allocatedQty,
           shortfallQuantity = remainingQty st,
           allocations = st_allocations st,
           skippedSources = st_skipped st \<rparr>)"

text \<open>\<^verbatim>\<open>allocateWithFefo(request, sources, options?)\<close>; absent options are the empty object.\<close>

definition allocateWithFefo :: "AllocationRequest \<Rightarrow> InventorySource list \<Rightarrow> FefoOptions option \<Rightarrow> int \<Rightarrow> AllocationResult" where
  "allocateWithFefo request sources options now =
     allocate (new_FefoAllocator
                 (case options of
                    None \<Rightarrow> \<lparr> opt_minDaysToExpiration = None, opt_referenceDate = None \<rparr>
                  | Some opts \<Rightarrow> opts) now)
              request sources"

subsection \<open>Notions used to state the properties of the allocator\<close>

text \<open>
  The allocation lines that the loop of \<^verbatim>\<open>allocate\<close> appends when it starts on the
  sources \<open>xs\<close> with \<open>r\<close> units remaining (shown below to be what \<open>allocateLoop\<close>
  appends).
\<close>

fun loopLines :: "FefoAllocator \<Rightarrow> AllocationRequest \<Rightarrow> InventorySource list \<Rightarrow> int \<Rightarrow> AllocationLine list" where
  "loopLines this request [] r = []"
| "loopLines this request (source # rest) r =
     (if r \<le> 0 then []
      else case skipReason this request source of
        Some why \<Rightarrow> loopLines this request rest r
      | None \<Rightarrow>
          makeLine this source (min r (quantityAvailable (stockLevel source))) #
          loopLines this request rest (r - min r (quantityAvailable (stockLevel source))))"

text \<open>
  A source passes the filters when it is kept by the product, warehouse and variant
  filter and no check of the loop skips it.
\<close>

definition passesFilters :: "FefoAllocator \<Rightarrow> AllocationRequest \<Rightarrow> InventorySource \<Rightarrow> bool" where
  "passesFilters this request s = (matchesRequest request s \<and> skipReason this request s = None)"

definition sourceExpiration :: "InventorySource \<Rightarrow> int option" where
  "sourceExpiration s = Option.bind (lotBatch s) expirationDate"

text \<open>
  The order of the specification, in its words: preferred locations first; within a group,
  both lots have an expiration: earlier date first; only one has: that one first; neither:
  by received date ascending; a source without a lot after a source with a lot.
\<close>

definition specFefoOrder :: "AllocationRequest \<Rightarrow> InventorySource \<Rightarrow> InventorySource \<Rightarrow> bool" where
  "specFefoOrder request a b =
     ((isPreferred request a \<and> \<not> isPreferred request b) \<or>
      (isPreferred request a = isPreferred request b \<and>
       (case lotBatch a of
          None \<Rightarrow> lotBatch b = None
        | Some la \<Rightarrow>
            (case lotBatch b of
               None \<Rightarrow> True
             | Some lb \<Rightarrow>
                 (case expirationDate la of
                    Some ea \<Rightarrow> (case expirationDate lb of Some eb \<Rightarrow> ea \<le> eb | None \<Rightarrow> True)
                  | None \<Rightarrow> (case expirationDate lb of
                               Some eb \<Rightarrow> False
                             | None \<Rightarrow> receivedAt la \<le> receivedAt lb))))))"

text \<open>The sort keys of a lot and of a source, for the proofs about the comparators.\<close>

definition lotKey :: "LotBatch \<Rightarrow> nat \<times> int" where
  "lotKey l = (case expirationDate l of None \<Rightarrow> (1, receivedAt l) | Some e \<Rightarrow> (0, e))"

definition srcKey :: "AllocationRequest \<Rightarrow> InventorySource \<Rightarrow> nat \<times> nat \<times> nat \<times> int" where
  "srcKey r a = (if isPreferred r a then 0 else 1,
                 case lotBatch a of None \<Rightarrow> (1, 0, 0) | Some l \<Rightarrow> (0, lotKey l))"

subsection \<open>Example data: scenario S2 of the specification\<close>

definition day_ms :: int where
  "day_ms = 1000 * 60 * 60 * 24"

definition ex_stock :: "string \<Rightarrow> string \<Rightarrow> string \<Rightarrow> int \<Rightarrow> StockLevel" where
  "ex_stock sid loc lid avail =
     \<lparr> sl_id = sid, tenantId = ''T1'', warehouseId = ''W1'', productId = ''P2'',
       variantId = None, locationId = loc, lotBatchId = Some lid,
       quantityOnHand = avail, quantityReserved = 0, quantityAvailable = avail,
       quantityInbound = 0, quantityOutbound = 0, lastMovementAt = None, rowVersion = 1 \<rparr>"

definition ex_lot :: "string \<Rightarrow> int \<Rightarrow> LotBatch" where
  "ex_lot lid expDays =
     \<lparr> lot_id = lid, lot_tenantId = ''T1'', lot_productId = ''P2'', lotNumber = lid,
       expirationDate = Some (expDays * day_ms), receivedAt = 0, lot_status = AVAILABLE \<rparr>"

definition ex_source :: "string \<Rightarrow> string \<Rightarrow> string \<Rightarrow> int \<Rightarrow> int \<Rightarrow> InventorySource" where
  "ex_source sid loc lid expDays avail =
     \<lparr> stockLevel = ex_stock sid loc lid avail, lotBatch = Some (ex_lot lid expDays) \<rparr>"

definition ex_request :: "int \<Rightarrow> string list option \<Rightarrow> int option \<Rightarrow> AllocationRequest" where
  "ex_request qty pref minDays =
     \<lparr> req_productId = ''P2'', req_variantId = None, requestedQuantity = qty,
       req_warehouseId = ''W1'', referenceType = ''SalesOrder'', referenceId = ''O1'',
       preferredLocations = pref, excludedLots = None, req_minDaysToExpiration = minDays \<rparr>"

definition ex_allocator :: FefoAllocator where
  "ex_allocator = \<lparr> minDaysToExpiration = 0, referenceDate = 0 \<rparr>"

definition ex_L1 :: InventorySource where
  "ex_L1 = ex_source ''SL1'' ''A-01'' ''L1'' 20 5"

definition ex_L2 :: InventorySource where
  "ex_L2 = ex_source ''SL2'' ''A-02'' ''L2'' 10 5"


section \<open>repositories/stock-level.repository.ts\<close>

text \<open>
  The errors that the repositories and the contracts package can raise. The first three
  are plain \<^verbatim>\<open>Error\<close>s, told apart by their message (\<^verbatim>\<open>StockLevel <id> not found\<close>,
  \<^verbatim>\<open>Optimistic lock conflict: expected version <e>, found <v>\<close>,
  \<^verbatim>\<open>OutboxMessage <id> not found\<close>); the last is the class
  \<^verbatim>\<open>NegativeStockBlockedError(productId, locationId, resultingQty)\<close> of the contracts
  package, whose error code is \<^verbatim>\<open>NEGATIVE_STOCK_BLOCKED\<close>.
\<close>

datatype Thrown =
    StockLevelNotFound string
  | OptimisticLockConflict int int
  | OutboxMessageNotFound string
  | NegativeStockBlockedError string string int

text \<open>
  The error code that a thrown value carries, if any: \<^verbatim>\<open>errorCode.code\<close> of an instance of
  \<^verbatim>\<open>DomainError\<close>; a plain \<^verbatim>\<open>Error\<close> has none.
\<close>

definition errorCodeOf :: "Thrown \<Rightarrow> string option" where
  "errorCodeOf t =
     (case t of
        NegativeStockBlockedError p l q \<Rightarrow> Some ''NEGATIVE_STOCK_BLOCKED''
      | StockLevelNotFound i \<Rightarrow> None
      | OptimisticLockConflict e v \<Rightarrow> None
      | OutboxMessageNotFound i \<Rightarrow> None)"

record QuantityDelta =
  d_onHand :: "int option"
  d_reserved :: "int option"
  d_inbound :: "int option"
  d_outbound :: "int option"

text \<open>\<^verbatim>\<open>delta.field ?? 0\<close>\<close>

definition orZero :: "int option \<Rightarrow> int" where
  "orZero d = (case d of None \<Rightarrow> 0 | Some v \<Rightarrow> v)"

text \<open>
  The table of stock levels is a map from the row identifier to the row; \<open>now\<close> is the
  value of \<^verbatim>\<open>new Date()\<close>. The operation returns the updated row and the new table, or
  the error it throws.
\<close>

definition updateQuantities ::
  "(string \<rightharpoonup> StockLevel) \<Rightarrow> int \<Rightarrow> string \<Rightarrow> QuantityDelta \<Rightarrow> int \<Rightarrow>
     Thrown + (StockLevel \<times> (string \<rightharpoonup> StockLevel))" where
  "updateQuantities db now ident delta expectedVersion =
     (case db ident of
        None \<Rightarrow> Inl (StockLevelNotFound ident)
      | Some current \<Rightarrow>
          if rowVersion current \<noteq> expectedVersion
          then Inl (OptimisticLockConflict expectedVersion (rowVersion current))
          else
            (let newOnHand = quantityOnHand current + orZero (d_onHand delta);
                 newReserved = quantityReserved current + orZero (d_reserved delta);
                 updated = current
                   \<lparr> quantityOnHand := newOnHand,
                     quantityReserved := newReserved,
                     quantityAvailable := newOnHand - newReserved,
                     quantityInbound := quantityInbound current + orZero (d_inbound delta),
                     quantityOutbound := quantityOutbound current + orZero (d_outbound delta),
                     lastMovementAt := Some now,
                     rowVersion := rowVersion current + 1 \<rparr>
             in Inr (updated, db(ident \<mapsto> updated))))"

definition noDelta :: QuantityDelta where
  "noDelta = \<lparr> d_onHand = None, d_reserved = None, d_inbound = None, d_outbound = None \<rparr>"

definition decrementOnHand ::
  "(string \<rightharpoonup> StockLevel) \<Rightarrow> int \<Rightarrow> string \<Rightarrow> int \<Rightarrow> int \<Rightarrow>
     Thrown + (StockLevel \<times> (string \<rightharpoonup> StockLevel))" where
  "decrementOnHand db now ident qty expectedVersion =
     updateQuantities db now ident (noDelta\<lparr> d_onHand := Some (- qty) \<rparr>) expectedVersion"

definition reserve ::
  "(string \<rightharpoonup> StockLevel) \<Rightarrow> int \<Rightarrow> string \<Rightarrow> int \<Rightarrow> int \<Rightarrow>
     Thrown + (StockLevel \<times> (string \<rightharpoonup> StockLevel))" where
  "reserve db now ident qty expectedVersion =
     updateQuantities db now ident (noDelta\<lparr> d_reserved := Some qty \<rparr>) expectedVersion"

text \<open>Example data: a table with the one row \<open>SL1\<close>, 5 units on hand, none reserved, version 1.\<close>

definition ex_db :: "string \<rightharpoonup> StockLevel" where
  "ex_db = [''SL1'' \<mapsto> ex_stock ''SL1'' ''A-01'' ''L1'' 5]"

section \<open>repositories/outbox.repository.ts\<close>

datatype OutboxStatus = PENDING | PUBLISHED | FAILED

text \<open>
  The columns that \<^verbatim>\<open>markAsFailed\<close> reads or writes. The retry counters are natural
  numbers: a row is created with retry count 0, which is only incremented or reset to 0.
\<close>

record OutboxMessage =
  ob_id :: string
  ob_eventId :: string
  ob_status :: OutboxStatus
  retryCount :: nat
  maxRetries :: nat
  lastError :: "string option"
  scheduledAt :: int
  publishedAt :: "int option"

text \<open>\<open>now\<close> is the value of \<^verbatim>\<open>Date.now()\<close>, in milliseconds.\<close>

definition markAsFailed ::
  "(string \<rightharpoonup> OutboxMessage) \<Rightarrow> int \<Rightarrow> string \<Rightarrow> string \<Rightarrow>
     Thrown + (OutboxMessage \<times> (string \<rightharpoonup> OutboxMessage))" where
  "markAsFailed db now ident err =
     (case db ident of
        None \<Rightarrow> Inl (OutboxMessageNotFound ident)
      | Some message \<Rightarrow>
          (let newRetryCount = retryCount message + 1;
               status = (if newRetryCount \<ge> maxRetries message then FAILED else PENDING);
               backoffSeconds = (2::int) ^ newRetryCount;
               nextSchedule = now + backoffSeconds * 1000;
               updated = message
                 \<lparr> ob_status := status,
                   retryCount := newRetryCount,
                   lastError := Some err,
                   scheduledAt := nextSchedule \<rparr>
           in Inr (updated, db(ident \<mapsto> updated))))"

text \<open>Example data: a pending row after one failed attempt, with the default maximum.\<close>

definition ex_outbox_row :: OutboxMessage where
  "ex_outbox_row =
     \<lparr> ob_id = ''M1'', ob_eventId = ''E1'', ob_status = PENDING, retryCount = 1, maxRetries = 5,
       lastError = None, scheduledAt = 0, publishedAt = None \<rparr>"


section \<open>rules/slotting-scorer.ts\<close>

text \<open>
  Scores, weights, utilisation, distance and pick frequency are JavaScript numbers, taken
  here as real numbers; the constructors of \<open>LocationType\<close> are the strings of the source,
  with \<open>QUARANTINE\<close> renamed to keep it apart from the lot status.
\<close>

datatype LocationType =
  BULK | PICK | STAGING | RECEIVING | SHIPPING | QUARANTINE_LOCATION | RETURN | CROSS_DOCK

datatype TemperatureZone = AMBIENT | CHILLED | FROZEN | CONTROLLED

datatype ABCClass = ClassA | ClassB | ClassC

record Location =
  loc_id :: string
  loc_code :: string
  loc_zone :: string
  loc_type :: LocationType
  temperatureZone :: TemperatureZone
  pickSequence :: "int option"
  isActive :: bool
  isHazmatCertified :: bool

record SlottingCandidate =
  cand_location :: Location
  currentUtilization :: real
  distanceFromDock :: real
  pickFrequency :: real

record SlottingContext =
  productAbcClass :: "ABCClass option"
  temperatureRequired :: "TemperatureZone option"
  isHazmat :: bool
  quantityToStore :: real
  preferredZones :: "string list option"
  excludedLocations :: "string list option"

record SlottingWeights =
  abcVelocity :: real
  proximity :: real
  capacity :: real
  temperature :: real
  fefo :: real
  hazard :: real

definition DEFAULT_SLOTTING_WEIGHTS :: SlottingWeights where
  "DEFAULT_SLOTTING_WEIGHTS =
     \<lparr> abcVelocity = 0.30, proximity = 0.25, capacity = 0.20, temperature = 0.10,
       fefo = 0.10, hazard = 0.05 \<rparr>"

record ScoreBreakdown =
  abcVelocityScore :: real
  proximityScore :: real
  capacityScore :: real
  temperatureScore :: real
  fefoScore :: real
  hazardScore :: real

record ScoredLocation =
  sc_location :: Location
  score :: real
  breakdown :: ScoreBreakdown

definition isLocationValid :: "Location \<Rightarrow> SlottingContext \<Rightarrow> bool" where
  "isLocationValid location context =
     (if \<not> isActive location then False
      else if (case excludedLocations context of
                 None \<Rightarrow> False
               | Some ex \<Rightarrow> loc_id location \<in> set ex) then False
      else if (case preferredZones context of
                 None \<Rightarrow> False
               | Some zs \<Rightarrow> zs \<noteq> [] \<and> loc_zone location \<notin> set zs) then False
      else if (case temperatureRequired context of
                 None \<Rightarrow> False
               | Some t \<Rightarrow> t \<noteq> AMBIENT \<and> temperatureZone location \<noteq> t) then False
      else if isHazmat context \<and> \<not> isHazmatCertified location then False
      else True)"

definition scoreAbcVelocity :: "SlottingCandidate \<Rightarrow> SlottingContext \<Rightarrow> real" where
  "scoreAbcVelocity candidate context =
     (let maxFrequency = 100;
          normalizedFrequency = min (pickFrequency candidate / maxFrequency) 1
      in if productAbcClass context = Some ClassA then normalizedFrequency
         else if productAbcClass context = Some ClassC then 1 - normalizedFrequency
         else 0.5)"

text \<open>
  \<^verbatim>\<open>Math.max(...allCandidates.map(c => c.distanceFromDock))\<close>; for no candidate it is
  \<open>-\<infinity>\<close> (\<open>None\<close> here), and the score \<open>1 - d / -\<infinity>\<close> is 1.
\<close>

definition maxDistance :: "SlottingCandidate list \<Rightarrow> real option" where
  "maxDistance allCandidates =
     (case allCandidates of
        [] \<Rightarrow> None
      | c # cs \<Rightarrow> Some (fold max (map distanceFromDock cs) (distanceFromDock c)))"

definition scoreProximity :: "SlottingCandidate \<Rightarrow> SlottingCandidate list \<Rightarrow> real" where
  "scoreProximity candidate allCandidates =
     (case maxDistance allCandidates of
        None \<Rightarrow> 1
      | Some m \<Rightarrow> if m = 0 then 1 else 1 - distanceFromDock candidate / m)"

definition scoreCapacity :: "SlottingCandidate \<Rightarrow> real" where
  "scoreCapacity candidate = 1 - currentUtilization candidate / 100"

definition scoreTemperature :: "Location \<Rightarrow> SlottingContext \<Rightarrow> real" where
  "scoreTemperature location context =
     (case temperatureRequired context of
        None \<Rightarrow> 0.5
      | Some t \<Rightarrow> if temperatureZone location = t then 1.0 else 0.0)"

definition scoreFefo :: "Location \<Rightarrow> real" where
  "scoreFefo location = (if loc_type location \<in> set [PICK, STAGING] then 1.0 else 0.5)"

definition scoreHazard :: "Location \<Rightarrow> SlottingContext \<Rightarrow> real" where
  "scoreHazard location context =
     (if \<not> isHazmat context then 1.0
      else if isHazmatCertified location then 1.0 else 0.0)"

text \<open>The body of the \<^verbatim>\<open>map\<close> in \<^verbatim>\<open>scoreLocations\<close>; \<open>weights\<close> is \<^verbatim>\<open>this.weights\<close>.\<close>

definition scoreCandidate ::
  "SlottingWeights \<Rightarrow> SlottingCandidate list \<Rightarrow> SlottingContext \<Rightarrow> SlottingCandidate \<Rightarrow> ScoredLocation" where
  "scoreCandidate weights candidates context candidate =
     (let bd = \<lparr> abcVelocityScore = scoreAbcVelocity candidate context,
                 proximityScore = scoreProximity candidate candidates,
                 capacityScore = scoreCapacity candidate,
                 temperatureScore = scoreTemperature (cand_location candidate) context,
                 fefoScore = scoreFefo (cand_location candidate),
                 hazardScore = scoreHazard (cand_location candidate) context \<rparr>;
          total = abcVelocityScore bd * abcVelocity weights +
                  proximityScore bd * proximity weights +
                  capacityScore bd * capacity weights +
                  temperatureScore bd * temperature weights +
                  fefoScore bd * fefo weights +
                  hazardScore bd * hazard weights
      in \<lparr> sc_location = cand_location candidate, score = total, breakdown = bd \<rparr>)"

text \<open>The list \<^verbatim>\<open>scored\<close> of \<^verbatim>\<open>scoreLocations\<close>, before it is sorted.\<close>

definition scoredCandidates ::
  "SlottingWeights \<Rightarrow> SlottingCandidate list \<Rightarrow> SlottingContext \<Rightarrow> ScoredLocation list" where
  "scoredCandidates weights candidates context =
     map (scoreCandidate weights candidates context)
       (filter (\<lambda>c. isLocationValid (cand_location c) context) candidates)"

definition scoreLocations ::
  "SlottingWeights \<Rightarrow> SlottingCandidate list \<Rightarrow> SlottingContext \<Rightarrow> ScoredLocation list" where
  "scoreLocations weights candidates context =
     js_sort (\<lambda>a b. score b - score a) (scoredCandidates weights candidates context)"

text \<open>
  Example data: two active pick locations that differ in identifier, code and pick
  sequence only, the one with the higher pick sequence given first.
\<close>

definition ex_location :: "string \<Rightarrow> int \<Rightarrow> Location" where
  "ex_location ident pickSeq =
     \<lparr> loc_id = ident, loc_code = ident, loc_zone = ''A'', loc_type = PICK,
       temperatureZone = AMBIENT, pickSequence = Some pickSeq, isActive = True,
       isHazmatCertified = False \<rparr>"

definition ex_candidate :: "string \<Rightarrow> int \<Rightarrow> SlottingCandidate" where
  "ex_candidate ident pickSeq =
     \<lparr> cand_location = ex_location ident pickSeq, currentUtilization = 0,
       distanceFromDock = 1, pickFrequency = 80 \<rparr>"

definition ex_context :: SlottingContext where
  "ex_context =
     \<lparr> productAbcClass = Some ClassA, temperatureRequired = None, isHazmat = False,
       quantityToStore = 10, preferredZones = None, excludedLocations = None \<rparr>"


section \<open>Event envelope and agent contract\<close>

datatype ActorType = USER | SYSTEM | AGENT | INTEGRATION

record Actor =
  actor_type :: ActorType
  actor_id :: string

text \<open>The payload is the serialised object.\<close>

record EventEnvelope =
  event_id :: string
  event_type :: string
  occurred_at :: string
  schema_version :: string
  correlation_id :: string
  causation_id :: "string option"
  actor :: Actor
  tenant_id :: string
  warehouse_id :: "string option"
  payload :: string

text \<open>The context without its logger.\<close>

record AgentContext =
  ctx_tenantId :: string
  ctx_warehouseId :: "string option"
  ctx_correlationId :: string

record AgentResult =
  ar_success :: bool
  ar_message :: "string option"
  ar_data :: "string option"
  ar_eventsToPublish :: "EventEnvelope list option"
  ar_errors :: "string list option"

text \<open>
  What the abstract method \<^verbatim>\<open>process\<close> of an agent does on an event: it resolves with a
  result, it throws an error with a message, or it does not settle before the runner's
  timeout.
\<close>

datatype ProcessOutcome = Returns AgentResult | Throws string | Hangs

record BaseAgent =
  name :: string
  description :: string
  subscribesTo :: "string list"
  process :: "EventEnvelope \<Rightarrow> AgentContext \<Rightarrow> ProcessOutcome"

text \<open>The failure result built in the two \<^verbatim>\<open>catch\<close> blocks.\<close>

definition failureResult :: "string \<Rightarrow> AgentResult" where
  "failureResult msg =
     \<lparr> ar_success = False, ar_message = Some msg, ar_data = None,
       ar_eventsToPublish = None, ar_errors = Some [msg] \<rparr>"

text \<open>\<^verbatim>\<open>BaseAgent.handle\<close>; \<open>None\<close> is the promise that does not settle in time.\<close>

definition handle :: "BaseAgent \<Rightarrow> EventEnvelope \<Rightarrow> AgentContext \<Rightarrow> AgentResult option" where
  "handle agent event context =
     (case process agent event context of
        Returns r \<Rightarrow> Some r
      | Throws msg \<Rightarrow> Some (failureResult msg)
      | Hangs \<Rightarrow> None)"

section \<open>runtime/agent-registry.ts\<close>

text \<open>
  A \<^verbatim>\<open>Set<string>\<close> is the list of its elements in insertion order; a \<^verbatim>\<open>Map\<close> read by
  key only is a partial function.
\<close>

definition set_add :: "string list \<Rightarrow> string \<Rightarrow> string list" where
  "set_add s x = (if x \<in> set s then s else s @ [x])"

definition set_delete :: "string list \<Rightarrow> string \<Rightarrow> string list" where
  "set_delete s x = removeAll x s"

record AgentRegistry =
  agents :: "string \<rightharpoonup> BaseAgent"
  eventSubscriptions :: "string \<rightharpoonup> string list"

definition emptyRegistry :: AgentRegistry where
  "emptyRegistry = \<lparr> agents = Map.empty, eventSubscriptions = Map.empty \<rparr>"

text \<open>The loop of \<^verbatim>\<open>register\<close> over \<^verbatim>\<open>agent.subscribesTo\<close>.\<close>

fun addSubscriptions :: "string \<Rightarrow> string list \<Rightarrow> (string \<rightharpoonup> string list) \<Rightarrow> (string \<rightharpoonup> string list)" where
  "addSubscriptions n [] subs = subs"
| "addSubscriptions n (eventType # rest) subs =
     addSubscriptions n rest
       (subs(eventType \<mapsto> set_add (case subs eventType of None \<Rightarrow> [] | Some s \<Rightarrow> s) n))"

definition register :: "BaseAgent \<Rightarrow> AgentRegistry \<Rightarrow> AgentRegistry" where
  "register agent reg =
     \<lparr> agents = (agents reg)(name agent \<mapsto> agent),
       eventSubscriptions = addSubscriptions (name agent) (subscribesTo agent) (eventSubscriptions reg) \<rparr>"

text \<open>The loop of \<^verbatim>\<open>unregister\<close> over the subscriptions of the agent found.\<close>

fun removeSubscriptions :: "string \<Rightarrow> string list \<Rightarrow> (string \<rightharpoonup> string list) \<Rightarrow> (string \<rightharpoonup> string list)" where
  "removeSubscriptions n [] subs = subs"
| "removeSubscriptions n (eventType # rest) subs =
     removeSubscriptions n rest
       (case subs eventType of
          None \<Rightarrow> subs
        | Some s \<Rightarrow> subs(eventType \<mapsto> set_delete s n))"

definition unregister :: "string \<Rightarrow> AgentRegistry \<Rightarrow> AgentRegistry" where
  "unregister agentName reg =
     (case agents reg agentName of
        None \<Rightarrow> reg
      | Some agent \<Rightarrow>
          \<lparr> agents = (agents reg)(agentName := None),
            eventSubscriptions =
              removeSubscriptions agentName (subscribesTo agent) (eventSubscriptions reg) \<rparr>)"

definition getAgent :: "AgentRegistry \<Rightarrow> string \<Rightarrow> BaseAgent option" where
  "getAgent reg n = agents reg n"

text \<open>The names collected by \<^verbatim>\<open>getAgentsForEvent\<close> before they are resolved.\<close>

definition agentNamesForEvent :: "AgentRegistry \<Rightarrow> string \<Rightarrow> string list" where
  "agentNamesForEvent reg eventType =
     (let agentNames = [];
          agentNames = (case eventSubscriptions reg eventType of
                          None \<Rightarrow> agentNames
                        | Some specificSubs \<Rightarrow> foldl set_add agentNames specificSubs);
          agentNames = (case eventSubscriptions reg ''*'' of
                          None \<Rightarrow> agentNames
                        | Some wildcardSubs \<Rightarrow> foldl set_add agentNames wildcardSubs)
      in agentNames)"

definition getAgentsForEvent :: "AgentRegistry \<Rightarrow> string \<Rightarrow> BaseAgent list" where
  "getAgentsForEvent reg eventType =
     List.map_filter (agents reg) (agentNamesForEvent reg eventType)"

text \<open>
  An agent is registered when it is stored under its name and its name is in the
  subscription index under every event type it subscribes to.
\<close>

definition isRegistered :: "AgentRegistry \<Rightarrow> BaseAgent \<Rightarrow> bool" where
  "isRegistered reg a =
     (agents reg (name a) = Some a \<and>
      list_all (\<lambda>t. case eventSubscriptions reg t of None \<Rightarrow> False | Some s \<Rightarrow> name a \<in> set s)
        (subscribesTo a))"

text \<open>The name \<open>n\<close> is in the subscription index under the event type \<open>t\<close>.\<close>

definition subscribed :: "(string \<rightharpoonup> string list) \<Rightarrow> string \<Rightarrow> string \<Rightarrow> bool" where
  "subscribed subs t n = (case subs t of None \<Rightarrow> False | Some s \<Rightarrow> n \<in> set s)"

section \<open>runtime/agent-runner.ts\<close>

record AgentRunnerConfig =
  concurrency :: nat
  continueOnError :: bool
  timeout :: nat

definition DEFAULT_CONFIG :: AgentRunnerConfig where
  "DEFAULT_CONFIG = \<lparr> concurrency = 10, continueOnError = True, timeout = 30000 \<rparr>"

text \<open>The durations, read from the wall clock, are left out of the two result records.\<close>

record AgentExecutionResult =
  agentName :: string
  result :: AgentResult

record BatchExecutionResult =
  eventId :: string
  eventType :: string
  results :: "AgentExecutionResult list"
  successCount :: nat
  failureCount :: nat
  eventsToPublish :: "EventEnvelope list"

text \<open>
  A promise: resolved with a value, rejected with the error thrown, or never settled.
\<close>

datatype 'a Promise = Resolved 'a | Rejected string | Pending

text \<open>
  The error of reading the property \<^verbatim>\<open>result\<close> of \<^verbatim>\<open>null\<close>.
\<close>

definition nullResultError :: string where
  "nullResultError = ''TypeError: Cannot read properties of null (reading result)''"

text \<open>\<^verbatim>\<open>Promise.all\<close>: the values in order, or the first rejection.\<close>

fun promiseAll :: "'a Promise list \<Rightarrow> 'a list Promise" where
  "promiseAll [] = Resolved []"
| "promiseAll (p # ps) =
     (case p of
        Rejected e \<Rightarrow> Rejected e
      | Pending \<Rightarrow> (case promiseAll ps of Rejected e \<Rightarrow> Rejected e | Resolved vs \<Rightarrow> Pending | Pending \<Rightarrow> Pending)
      | Resolved v \<Rightarrow>
          (case promiseAll ps of
             Resolved vs \<Rightarrow> Resolved (v # vs)
           | Rejected e \<Rightarrow> Rejected e
           | Pending \<Rightarrow> Pending))"

text \<open>The decimal digits of a number, for the message of the timeout.\<close>

function showNat :: "nat \<Rightarrow> string" where
  "showNat n =
     (if n < 10 then [''0123456789'' ! n]
      else showNat (n div 10) @ [''0123456789'' ! (n mod 10)])"
  by pat_completeness auto
termination
  by (relation "measure id") auto

declare showNat.simps [simp del]

text \<open>
  The class \<^verbatim>\<open>AgentRunner\<close> declares \<^verbatim>\<open>executeAgent\<close> twice. This is the first
  declaration (line 147), which takes the agent: the handler raced against the timeout,
  whose rejection is caught and turned into a failure result. A class keeps the last
  declaration of a method, so at run time no call reaches this one.
\<close>

definition executeAgent_first ::
  "AgentRunnerConfig \<Rightarrow> BaseAgent \<Rightarrow> EventEnvelope \<Rightarrow> AgentContext \<Rightarrow> AgentExecutionResult" where
  "executeAgent_first cfg agent event context =
     (case handle agent event context of
        Some r \<Rightarrow> \<lparr> agentName = name agent, result = r \<rparr>
      | None \<Rightarrow>
          \<lparr> agentName = name agent,
            result = failureResult
              (''Agent '' @ name agent @ '' timed out after '' @ showNat (timeout cfg) @ ''ms'') \<rparr>)"

text \<open>
  What a caller passes as the first argument of \<^verbatim>\<open>executeAgent\<close>: a name, as the second
  declaration expects, or the agent object, as \<^verbatim>\<open>executeAgents\<close> passes.
\<close>

datatype AgentArg = AgentName string | AgentObject BaseAgent

text \<open>
  \<^verbatim>\<open>agentRegistry.getAgent(agentName)\<close> on such an argument: the map of agents is keyed
  by strings, so an object is the key of no entry.
\<close>

definition getAgentArg :: "AgentRegistry \<Rightarrow> AgentArg \<Rightarrow> BaseAgent option" where
  "getAgentArg reg arg = (case arg of AgentName n \<Rightarrow> getAgent reg n | AgentObject a \<Rightarrow> None)"

text \<open>
  \<^verbatim>\<open>batchResults.some(r => !r.result.success)\<close> on results that may be \<^verbatim>\<open>null\<close>.
\<close>

fun someFailed :: "AgentExecutionResult option list \<Rightarrow> string + bool" where
  "someFailed [] = Inr False"
| "someFailed (None # rest) = Inl nullResultError"
| "someFailed (Some r # rest) = (if \<not> ar_success (result r) then Inr True else someFailed rest)"

text \<open>
  The second declaration of \<^verbatim>\<open>executeAgent\<close> (line 187), the one in force, and
  \<^verbatim>\<open>executeAgents\<close>, which calls it with each agent of a batch; a result is an execution
  result or \<^verbatim>\<open>null\<close> (\<open>None\<close>). With a concurrency of 0 the index of the loop never
  advances and the promise is never settled.
\<close>

function executeAgent ::
    "AgentRunnerConfig \<Rightarrow> AgentRegistry \<Rightarrow> AgentArg \<Rightarrow> EventEnvelope \<Rightarrow> AgentContext \<Rightarrow>
       AgentExecutionResult option Promise"
  and executeAgents ::
    "AgentRunnerConfig \<Rightarrow> AgentRegistry \<Rightarrow> BaseAgent list \<Rightarrow> EventEnvelope \<Rightarrow> AgentContext \<Rightarrow>
       AgentExecutionResult option list Promise" where
  "executeAgent cfg reg arg event context =
     (case getAgentArg reg arg of
        None \<Rightarrow> Resolved None
      | Some agent \<Rightarrow>
          (case executeAgents cfg reg [agent] event context of
             Resolved rs \<Rightarrow> Resolved (case rs of [] \<Rightarrow> None | r # rest \<Rightarrow> r)
           | Rejected e \<Rightarrow> Rejected e
           | Pending \<Rightarrow> Pending))"
| "executeAgents cfg reg [] event context = Resolved []"
| "executeAgents cfg reg (a # as) event context =
     (if concurrency cfg = 0 then Pending
      else
        (case promiseAll
                (map (\<lambda>agent. executeAgent cfg reg (AgentObject agent) event context)
                   (take (concurrency cfg) (a # as))) of
           Rejected e \<Rightarrow> Rejected e
         | Pending \<Rightarrow> Pending
         | Resolved batchResults \<Rightarrow>
             (case (if continueOnError cfg then Inr False else someFailed batchResults) of
                Inl e \<Rightarrow> Rejected e
              | Inr hasError \<Rightarrow>
                  if hasError then Resolved batchResults
                  else
                    (case executeAgents cfg reg (drop (concurrency cfg) (a # as)) event context of
                       Resolved rest \<Rightarrow> Resolved (batchResults @ rest)
                     | Rejected e \<Rightarrow> Rejected e
                     | Pending \<Rightarrow> Pending))))"
  by pat_completeness auto
termination
  by (relation "measure (\<lambda>x. case x of
         Inl (cfg, reg, arg, event, ctx) \<Rightarrow> (case arg of AgentName n \<Rightarrow> 3 | AgentObject a \<Rightarrow> 0)
       | Inr (cfg, reg, ags, event, ctx) \<Rightarrow> 1 + length ags)")
     (auto simp: getAgentArg_def split: AgentArg.splits)

declare executeAgent.simps [simp del]

declare executeAgents.simps [simp del]

text \<open>\<^verbatim>\<open>r.result.eventsToPublish ?? []\<close>\<close>

definition returnedEvents :: "AgentExecutionResult \<Rightarrow> EventEnvelope list" where
  "returnedEvents r = (case ar_eventsToPublish (result r) of None \<Rightarrow> [] | Some es \<Rightarrow> es)"

text \<open>
  \<^verbatim>\<open>executeForEvent\<close>. The three passes over \<^verbatim>\<open>results\<close> read \<^verbatim>\<open>r.result\<close> of every
  element, so a \<^verbatim>\<open>null\<close> among them throws.
\<close>

definition executeForEvent ::
  "AgentRunnerConfig \<Rightarrow> AgentRegistry \<Rightarrow> EventEnvelope \<Rightarrow> AgentContext \<Rightarrow>
     BatchExecutionResult Promise" where
  "executeForEvent cfg reg event context =
     (let ags = getAgentsForEvent reg (event_type event) in
      if length ags = 0
      then Resolved \<lparr> eventId = event_id event, eventType = event_type event, results = [],
                      successCount = 0, failureCount = 0, eventsToPublish = [] \<rparr>
      else
        (case executeAgents cfg reg ags event context of
           Pending \<Rightarrow> Pending
         | Rejected e \<Rightarrow> Rejected e
         | Resolved rs \<Rightarrow>
             (case those rs of
                None \<Rightarrow> Rejected nullResultError
              | Some rs' \<Rightarrow>
                  Resolved \<lparr> eventId = event_id event, eventType = event_type event, results = rs',
                             successCount = length (filter (\<lambda>r. ar_success (result r)) rs'),
                             failureCount = length (filter (\<lambda>r. \<not> ar_success (result r)) rs'),
                             eventsToPublish = concat (map returnedEvents rs') \<rparr>)))"

section \<open>consumers/event-consumer.ts\<close>

text \<open>
  An inbound message: its content is either JSON that parses to an envelope, or text on
  which \<^verbatim>\<open>JSON.parse\<close> throws (\<open>None\<close>); the header \<^verbatim>\<open>x-retry-count\<close> may be absent.
\<close>

record ConsumeMessage =
  content :: "EventEnvelope option"
  messageId :: "string option"
  x_retry_count :: "nat option"

record PublishedMessage =
  exchange :: string
  routingKey :: string
  body :: EventEnvelope
  pub_messageId :: string
  h_tenant_id :: string
  h_event_type :: string
  h_correlation_id :: string
  h_causation_id :: string

text \<open>
  The calls on the channel: a publish, an acknowledgement, a negative acknowledgement
  with requeue issued by a timer after a delay in milliseconds, and a negative
  acknowledgement without requeue, which dead-letters the message.
\<close>

datatype ChannelAction =
    Publish PublishedMessage
  | Ack
  | NackRequeueAfter nat
  | NackNoRequeue

text \<open>\<^verbatim>\<open>toLowerCase()\<close> on ASCII letters and \<^verbatim>\<open>replace(/_/g, '.')\<close>.\<close>

definition toLowerChar :: "char \<Rightarrow> char" where
  "toLowerChar c =
     (case map_of (zip ''ABCDEFGHIJKLMNOPQRSTUVWXYZ'' ''abcdefghijklmnopqrstuvwxyz'') c of
        None \<Rightarrow> c
      | Some l \<Rightarrow> l)"

definition routingKeyOf :: "string \<Rightarrow> string" where
  "routingKeyOf eventTypeName =
     map (\<lambda>c. if c = CHR ''_'' then CHR ''.'' else c) (map toLowerChar eventTypeName)"

definition publishDerived :: "EventEnvelope \<Rightarrow> EventEnvelope \<Rightarrow> PublishedMessage" where
  "publishDerived event newEvent =
     \<lparr> exchange = ''stockos.events'',
       routingKey = routingKeyOf (event_type newEvent),
       body = newEvent,
       pub_messageId = event_id newEvent,
       h_tenant_id = tenant_id newEvent,
       h_event_type = event_type newEvent,
       h_correlation_id = correlation_id newEvent,
       h_causation_id = event_id event \<rparr>"

text \<open>The \<^verbatim>\<open>catch\<close> block of \<^verbatim>\<open>handleMessage\<close>.\<close>

definition onProcessingError :: "ConsumeMessage \<Rightarrow> ChannelAction list" where
  "onProcessingError msg =
     (let retryCount = (case x_retry_count msg of None \<Rightarrow> 0 | Some n \<Rightarrow> n) in
      if retryCount < 3 then [NackRequeueAfter (2 ^ retryCount * 1000)]
      else [NackNoRequeue])"

text \<open>
  \<^verbatim>\<open>handleMessage\<close>, on an open channel, as the list of its calls on the channel. The
  runner is the singleton built with the default configuration. An error is thrown in
  the \<^verbatim>\<open>try\<close> block when the content does not parse, when the runner rejects, and when
  the infrastructure raises one while the agents run (\<open>fault\<close>, if any). A null message
  is ignored.
\<close>

definition handleMessage ::
  "AgentRegistry \<Rightarrow> string option \<Rightarrow> ConsumeMessage option \<Rightarrow> ChannelAction list" where
  "handleMessage reg fault msgOpt =
     (case msgOpt of
        None \<Rightarrow> []
      | Some msg \<Rightarrow>
          (case content msg of
             None \<Rightarrow> onProcessingError msg
           | Some event \<Rightarrow>
               (case fault of
                  Some err \<Rightarrow> onProcessingError msg
                | None \<Rightarrow>
                    (case executeForEvent DEFAULT_CONFIG reg event
                            \<lparr> ctx_tenantId = tenant_id event,
                              ctx_warehouseId = warehouse_id event,
                              ctx_correlationId = correlation_id event \<rparr> of
                       Pending \<Rightarrow> []
                     | Rejected err \<Rightarrow> onProcessingError msg
                     | Resolved res \<Rightarrow>
                         map (\<lambda>newEvent. Publish (publishDerived event newEvent)) (eventsToPublish res)
                         @ [Ack]))))"

text \<open>
  The life of one message on the queue. A negative acknowledgement with requeue puts the
  message back as it is: neither the broker nor any code of the repository writes the
  header \<^verbatim>\<open>x-retry-count\<close>. The function counts the deliveries until the message is
  acknowledged or dead-lettered, within \<open>fuel\<close> deliveries; \<open>None\<close> when the message is
  still being requeued after them.
\<close>

datatype Settlement = Acknowledged | DeadLettered

fun deliverUntilSettled ::
  "nat \<Rightarrow> AgentRegistry \<Rightarrow> string option \<Rightarrow> ConsumeMessage \<Rightarrow> (nat \<times> Settlement) option" where
  "deliverUntilSettled 0 reg fault msg = None"
| "deliverUntilSettled (Suc fuel) reg fault msg =
     (let actions = handleMessage reg fault (Some msg) in
      if Ack \<in> set actions then Some (1, Acknowledged)
      else if NackNoRequeue \<in> set actions then Some (1, DeadLettered)
      else (case deliverUntilSettled fuel reg fault msg of
              None \<Rightarrow> None
            | Some (n, s) \<Rightarrow> Some (Suc n, s)))"

subsection \<open>Example data\<close>

definition ex_inbound :: EventEnvelope where
  "ex_inbound =
     \<lparr> event_id = ''E1'', event_type = ''Inventory.GoodsReceived'', occurred_at = ''2026-01-01T00:00:00Z'',
       schema_version = ''1.0'', correlation_id = ''C1'', causation_id = None,
       actor = \<lparr> actor_type = USER, actor_id = ''u1'' \<rparr>, tenant_id = ''T1'',
       warehouse_id = Some ''W1'', payload = ''{}'' \<rparr>"

text \<open>An envelope of another tenant and another correlation, with no causation.\<close>

definition ex_foreign :: EventEnvelope where
  "ex_foreign =
     \<lparr> event_id = ''E2'', event_type = ''Inventory.StockAdjusted'', occurred_at = ''2026-01-01T00:00:01Z'',
       schema_version = ''1.0'', correlation_id = ''C2'', causation_id = None,
       actor = \<lparr> actor_type = AGENT, actor_id = ''rogue'' \<rparr>, tenant_id = ''T2'',
       warehouse_id = None, payload = ''{}'' \<rparr>"

definition ex_rogue_agent :: BaseAgent where
  "ex_rogue_agent =
     \<lparr> name = ''rogue'', description = ''returns a foreign envelope'',
       subscribesTo = [''Inventory.GoodsReceived''],
       process = (\<lambda>event context.
         Returns \<lparr> ar_success = True, ar_message = None, ar_data = None,
                   ar_eventsToPublish = Some [ex_foreign], ar_errors = None \<rparr>) \<rparr>"

definition ex_context_for :: "EventEnvelope \<Rightarrow> AgentContext" where
  "ex_context_for event =
     \<lparr> ctx_tenantId = tenant_id event, ctx_warehouseId = warehouse_id event,
       ctx_correlationId = correlation_id event \<rparr>"

text \<open>Two agents of the same name with different subscriptions.\<close>

definition ex_agent_a :: BaseAgent where
  "ex_agent_a =
     \<lparr> name = ''threshold'', description = ''first version'',
       subscribesTo = [''Inventory.MovementRecorded''],
       process = (\<lambda>event context. Throws ''a'') \<rparr>"

definition ex_agent_b :: BaseAgent where
  "ex_agent_b =
     \<lparr> name = ''threshold'', description = ''second version'',
       subscribesTo = [''Inventory.StockAdjusted''],
       process = (\<lambda>event context. Throws ''b'') \<rparr>"

text \<open>An agent of another name, subscribed to the event type of \<open>ex_agent_a\<close>.\<close>

definition ex_agent_c :: BaseAgent where
  "ex_agent_c =
     \<lparr> name = ''slotting'', description = ''another agent'',
       subscribesTo = [''Inventory.MovementRecorded''],
       process = (\<lambda>event context. Throws ''c'') \<rparr>"

text \<open>A message whose content does not parse, delivered for the first time.\<close>

definition ex_poison :: ConsumeMessage where
  "ex_poison = \<lparr> content = None, messageId = Some ''E9'', x_retry_count = None \<rparr>"


section \<open>Verification\<close>

subsection \<open>The model of \<^verbatim>\<open>Array.prototype.sort\<close>\<close>

lemma mset_js_insert: "mset (js_insert cmp x xs) = add_mset x (mset xs)"
  by (induction xs) auto

lemma mset_js_sort: "mset (js_sort cmp xs) = mset xs"
  unfolding js_sort_def by (induction xs) (auto simp: mset_js_insert)

lemma set_js_sort: "set (js_sort cmp xs) = set xs"
  by (metis mset_js_sort set_mset_mset)

lemma set_js_insert: "set (js_insert cmp x xs) = insert x (set xs)"
  by (metis mset_js_insert set_mset_mset set_mset_add_mset_insert)

lemma sorted_js_insert:
  assumes tot: "\<And>a b. cmp a b \<le> 0 \<or> cmp b a \<le> 0"
    and tr: "\<And>a b c. cmp a b \<le> 0 \<Longrightarrow> cmp b c \<le> 0 \<Longrightarrow> cmp a c \<le> 0"
  shows "sorted_wrt (\<lambda>a b. cmp a b \<le> 0) xs \<Longrightarrow> sorted_wrt (\<lambda>a b. cmp a b \<le> 0) (js_insert cmp x xs)"
proof (induction xs)
  case Nil
  then show ?case by simp
next
  case (Cons y ys)
  show ?case
  proof (cases "cmp x y \<le> 0")
    case True
    with Cons.prems tr show ?thesis by auto
  next
    case False
    with tot have "cmp y x \<le> 0" by blast
    with False Cons show ?thesis by (auto simp: set_js_insert)
  qed
qed

lemma sorted_js_sort:
  assumes tot: "\<And>a b. cmp a b \<le> 0 \<or> cmp b a \<le> 0"
    and tr: "\<And>a b c. cmp a b \<le> 0 \<Longrightarrow> cmp b c \<le> 0 \<Longrightarrow> cmp a c \<le> 0"
  shows "sorted_wrt (\<lambda>a b. cmp a b \<le> 0) (js_sort cmp xs)"
  unfolding js_sort_def
proof (induction xs)
  case Nil
  then show ?case by simp
next
  case (Cons x xs)
  then show ?case using sorted_js_insert[of cmp, OF tot tr] by simp
qed


subsection \<open>The comparators are consistent orderings\<close>

lemma compareSources_cases:
  "compareSources r a b =
     (if isPreferred r a \<and> \<not> isPreferred r b then - 1
      else if \<not> isPreferred r a \<and> isPreferred r b then 1
      else case lotBatch a of
             Some la \<Rightarrow> (case lotBatch b of Some lb \<Rightarrow> compareLotsByFEFO la lb | None \<Rightarrow> - 1)
           | None \<Rightarrow> (case lotBatch b of Some lb \<Rightarrow> 1 | None \<Rightarrow> 0))"
  by (simp add: compareSources_def Let_def split: option.splits)

lemma compareLots_le_key: "compareLotsByFEFO a b \<le> 0 \<longleftrightarrow> lotKey a \<le> lotKey b"
  by (cases "expirationDate a"; cases "expirationDate b")
     (simp_all add: compareLotsByFEFO_def lotKey_def less_eq_prod_def)

lemma compareSources_le_key: "compareSources r a b \<le> 0 \<longleftrightarrow> srcKey r a \<le> srcKey r b"
  by (cases "lotBatch a"; cases "lotBatch b")
     (simp_all add: compareSources_cases srcKey_def less_eq_prod_def compareLots_le_key)

lemma compareSources_trans:
  "compareSources r a b \<le> 0 \<Longrightarrow> compareSources r b c \<le> 0 \<Longrightarrow> compareSources r a c \<le> 0"
  unfolding compareSources_le_key by (rule order_trans)


lemma compareSources_total: "compareSources r a b \<le> 0 \<or> compareSources r b a \<le> 0"
  unfolding compareSources_le_key by (rule linear)

lemma compareSources_spec: "compareSources request a b \<le> 0 \<longleftrightarrow> specFefoOrder request a b"
  by (cases "lotBatch a"; cases "lotBatch b")
     (auto simp: compareSources_cases specFefoOrder_def compareLotsByFEFO_def split: option.splits)


lemma sorted_filterAndSortSources:
  "sorted_wrt (\<lambda>a b. compareSources request a b \<le> 0) (filterAndSortSources sources request)"
  unfolding filterAndSortSources_def Let_def
  by (rule sorted_js_sort[OF compareSources_total compareSources_trans])

lemma mset_filterAndSortSources:
  "mset (filterAndSortSources sources request) = mset (filter (matchesRequest request) sources)"
  by (simp add: filterAndSortSources_def Let_def mset_js_sort split: option.splits)

lemma set_filterAndSortSources:
  "set (filterAndSortSources sources request) = {s \<in> set sources. matchesRequest request s}"
  using mset_filterAndSortSources[of sources request]
  by (metis set_filter set_mset_mset)

lemma distinct_filterAndSortSources:
  assumes "distinct (map (\<lambda>s. sl_id (stockLevel s)) sources)"
  shows "distinct (map (\<lambda>s. sl_id (stockLevel s)) (filterAndSortSources sources request))"
proof -
  have "mset (map (\<lambda>s. sl_id (stockLevel s)) (filterAndSortSources sources request)) =
        mset (map (\<lambda>s. sl_id (stockLevel s)) (filter (matchesRequest request) sources))"
    using mset_filterAndSortSources[of sources request] by (metis mset_map)
  moreover have "distinct (map (\<lambda>s. sl_id (stockLevel s)) (filter (matchesRequest request) sources))"
    using assms by (rule distinct_map_filter)
  ultimately show ?thesis by (metis mset_eq_imp_distinct_iff)
qed

subsection \<open>The allocation loop\<close>

lemma skipReason_None_available:
  "skipReason this request s = None \<Longrightarrow> 0 < quantityAvailable (stockLevel s)"
  by (simp add: skipReason_def split: if_splits)

lemma allocateStep_sum:
  "sum_list (map quantity (st_allocations (allocateStep this request s st))) +
     remainingQty (allocateStep this request s st) =
   sum_list (map quantity (st_allocations st)) + remainingQty st"
  by (simp add: allocateStep_def makeLine_def Let_def split: option.splits)

lemma allocateLoop_sum:
  "sum_list (map quantity (st_allocations (allocateLoop this request xs st))) +
     remainingQty (allocateLoop this request xs st) =
   sum_list (map quantity (st_allocations st)) + remainingQty st"
proof (induction xs arbitrary: st)
  case Nil
  show ?case by simp
next
  case (Cons s rest)
  show ?case
  proof (cases "remainingQty st \<le> 0")
    case True
    then show ?thesis by simp
  next
    case False
    then show ?thesis
      using Cons.IH[of "allocateStep this request s st"] allocateStep_sum[of this request s st]
      by simp
  qed
qed

lemma allocateStep_nonneg:
  "0 \<le> remainingQty st \<Longrightarrow> 0 \<le> remainingQty (allocateStep this request s st)"
  using skipReason_None_available[of this request s]
  by (auto simp: allocateStep_def Let_def split: option.splits)

lemma allocateLoop_nonneg:
  "0 \<le> remainingQty st \<Longrightarrow> 0 \<le> remainingQty (allocateLoop this request xs st)"
proof (induction xs arbitrary: st)
  case Nil
  then show ?case by simp
next
  case (Cons s rest)
  then show ?case using allocateStep_nonneg[of st this request s] by simp
qed

lemma allocateLoop_negative:
  "remainingQty st \<le> 0 \<Longrightarrow> allocateLoop this request xs st = st"
  by (cases xs) simp_all

lemma allocateLoop_lines:
  "st_allocations (allocateLoop this request xs st) =
   st_allocations st @ loopLines this request xs (remainingQty st)"
proof (induction xs arbitrary: st)
  case Nil
  show ?case by simp
next
  case (Cons s rest)
  show ?case
  proof (cases "remainingQty st \<le> 0")
    case True
    then show ?thesis by simp
  next
    case False
    then show ?thesis
      using Cons.IH[of "allocateStep this request s st"]
      by (simp add: allocateStep_def Let_def split: option.splits)
  qed
qed

lemma loopLines_positive:
  "l \<in> set (loopLines this request xs r) \<Longrightarrow> 0 < quantity l"
proof (induction xs arbitrary: r)
  case Nil
  then show ?case by simp
next
  case (Cons s rest)
  then show ?case
    using skipReason_None_available[of this request s]
    by (auto simp: makeLine_def split: if_splits option.splits)
qed

lemma loopLines_nonempty: "l \<in> set (loopLines this request xs r) \<Longrightarrow> 0 < r"
  by (cases xs) (auto split: if_splits)

lemma loopLines_source:
  "l \<in> set (loopLines this request xs r) \<Longrightarrow>
   \<exists>s\<in>set xs. skipReason this request s = None \<and> al_stockLevelId l = sl_id (stockLevel s)"
proof (induction xs arbitrary: r)
  case Nil
  then show ?case by simp
next
  case (Cons s rest)
  then show ?case
    by (fastforce simp: makeLine_def split: if_splits option.splits)
qed

lemma loopLines_monotone:
  assumes "sorted_wrt (\<lambda>a b. compareSources request a b \<le> 0) xs"
    and "distinct (map (\<lambda>s. sl_id (stockLevel s)) xs)"
    and "l \<in> set (loopLines this request xs r)"
    and "s \<in> set xs" and "al_stockLevelId l = sl_id (stockLevel s)"
    and "t \<in> set xs" and "skipReason this request t = None"
    and "\<not> compareSources request s t \<le> 0"
  shows "\<exists>l'\<in>set (loopLines this request xs r).
           al_stockLevelId l' = sl_id (stockLevel t) \<and>
           quantity l' = quantityAvailable (stockLevel t)"
  using assms
proof (induction xs arbitrary: r)
  case Nil
  then show ?case by simp
next
  case (Cons x rest)
  from Cons.prems(3) have rpos: "0 < r" by (rule loopLines_nonempty)
  have srt: "sorted_wrt (\<lambda>a b. compareSources request a b \<le> 0) rest"
    and dst: "distinct (map (\<lambda>s. sl_id (stockLevel s)) rest)"
    and xfirst: "\<forall>y\<in>set rest. compareSources request x y \<le> 0"
    using Cons.prems(1,2) by auto
  have xid: "\<forall>y\<in>set rest. sl_id (stockLevel y) \<noteq> sl_id (stockLevel x)"
    using Cons.prems(2) by (auto simp: image_iff)
  have refl: "compareSources request s s \<le> 0"
    using compareSources_total[of request s s] by simp
  show ?case
  proof (cases "skipReason this request x")
    case (Some why)
    with rpos Cons.prems(3) have lin: "l \<in> set (loopLines this request rest r)" by simp
    then obtain s' where s': "s' \<in> set rest" "al_stockLevelId l = sl_id (stockLevel s')"
      using loopLines_source by blast
    with Cons.prems(4,5) xid have sin: "s \<in> set rest" by auto
    from Some Cons.prems(6,7) have tin: "t \<in> set rest" by auto
    from Cons.IH[OF srt dst lin sin Cons.prems(5) tin Cons.prems(7,8)]
    show ?thesis using Some rpos by simp
  next
    case None
    let ?q = "min r (quantityAvailable (stockLevel x))"
    have lines: "loopLines this request (x # rest) r =
        makeLine this x ?q # loopLines this request rest (r - ?q)"
      using None rpos by simp
    show ?thesis
    proof (cases "l \<in> set (loopLines this request rest (r - ?q))")
      case True
      then obtain s' where s': "s' \<in> set rest" "al_stockLevelId l = sl_id (stockLevel s')"
        using loopLines_source by blast
      with Cons.prems(4,5) xid have sin: "s \<in> set rest" by auto
      show ?thesis
      proof (cases "t = x")
        case teq: True
        from True have "0 < r - ?q" by (rule loopLines_nonempty)
        then have "?q = quantityAvailable (stockLevel x)" by simp
        then show ?thesis using lines teq by (simp add: makeLine_def)
      next
        case False
        with Cons.prems(6) have tin: "t \<in> set rest" by simp
        from Cons.IH[OF srt dst True sin Cons.prems(5) tin Cons.prems(7,8)]
        show ?thesis using lines by auto
      qed
    next
      case False
      with Cons.prems(3) lines have "l = makeLine this x ?q" by simp
      then have "al_stockLevelId l = sl_id (stockLevel x)" by (simp add: makeLine_def)
      with Cons.prems(4,5) xid have "s = x" by auto
      with xfirst Cons.prems(6,8) refl show ?thesis by auto
    qed
  qed
qed



lemma allocations_allocate:
  "allocations (allocate this request sources) =
   loopLines this request (filterAndSortSources sources request) (requestedQuantity request)"
  by (simp add: allocate_def Let_def allocateLoop_lines)

lemmas ex_defs = ex_L1_def ex_L2_def ex_source_def ex_stock_def ex_lot_def ex_request_def
  ex_allocator_def day_ms_def

lemmas fefo_defs = allocate_def filterAndSortSources_def js_sort_def matchesRequest_def
  compareSources_def comparePreferred_def isPreferred_def compareLotsByFEFO_def
  allocateStep_def skipReason_def tooCloseToExpiration_def isLotAvailable_def isLotExpired_def
  calculateDaysToExpiration_def ceil_div_def makeLine_def allocateWithFefo_def
  new_FefoAllocator_def passesFilters_def sourceExpiration_def





text \<open>
  C1, as amended. The allocator visits the sources kept by the filter in the order of the
  specification: the sorted list is a permutation of the kept sources and is sorted by
  \<open>specFefoOrder\<close>. For sources with distinct stock-level identifiers: when a line draws
  from a source \<open>s\<close>, every source \<open>t\<close> of the same preference group that passes the
  filters and expires earlier than \<open>s\<close> has a line for its whole available quantity.
\<close>

theorem fefo_order_and_group_monotonicity:
  assumes "distinct (map (\<lambda>s. sl_id (stockLevel s)) sources)"
  shows "mset (filterAndSortSources sources request) = mset (filter (matchesRequest request) sources) \<and>
         sorted_wrt (specFefoOrder request) (filterAndSortSources sources request) \<and>
         (\<forall>l s t es et.
            l \<in> set (allocations (allocate this request sources)) \<and>
            s \<in> set sources \<and> al_stockLevelId l = sl_id (stockLevel s) \<and>
            t \<in> set sources \<and> passesFilters this request t \<and>
            isPreferred request s = isPreferred request t \<and>
            sourceExpiration s = Some es \<and> sourceExpiration t = Some et \<and> et < es
            \<longrightarrow> (\<exists>l'\<in>set (allocations (allocate this request sources)).
                   al_stockLevelId l' = sl_id (stockLevel t) \<and>
                   quantity l' = quantityAvailable (stockLevel t)))"
proof (intro conjI allI impI)
  show "mset (filterAndSortSources sources request) = mset (filter (matchesRequest request) sources)"
    by (rule mset_filterAndSortSources)
next
  have "(\<lambda>a b. compareSources request a b \<le> 0) = specFefoOrder request"
    by (intro ext) (rule compareSources_spec)
  then show "sorted_wrt (specFefoOrder request) (filterAndSortSources sources request)"
    using sorted_filterAndSortSources[of request sources] by simp
next
  fix l s t es et
  let ?xs = "filterAndSortSources sources request"
  let ?sid = "\<lambda>s. sl_id (stockLevel s)"
  assume H: "l \<in> set (allocations (allocate this request sources)) \<and>
            s \<in> set sources \<and> al_stockLevelId l = sl_id (stockLevel s) \<and>
            t \<in> set sources \<and> passesFilters this request t \<and>
            isPreferred request s = isPreferred request t \<and>
            sourceExpiration s = Some es \<and> sourceExpiration t = Some et \<and> et < es"
  then have lin: "l \<in> set (loopLines this request ?xs (requestedQuantity request))"
    by (simp add: allocations_allocate)
  then obtain s' where s': "s' \<in> set ?xs" "al_stockLevelId l = ?sid s'"
    using loopLines_source by blast
  then have "s' \<in> set sources" by (simp add: set_filterAndSortSources)
  with H s' assms have "s' = s" by (metis (mono_tags, lifting) distinct_map inj_onD)
  with s' have sin: "s \<in> set ?xs" by simp
  from H have tin: "t \<in> set ?xs"
    by (simp add: set_filterAndSortSources passesFilters_def)
  from H have tskip: "skipReason this request t = None" by (simp add: passesFilters_def)
  from H have "\<not> specFefoOrder request s t"
    by (auto simp: specFefoOrder_def sourceExpiration_def split: option.splits)
  then have later: "\<not> compareSources request s t \<le> 0" by (simp add: compareSources_spec)
  from H have lid: "al_stockLevelId l = ?sid s" by simp
  have "\<exists>l'\<in>set (loopLines this request ?xs (requestedQuantity request)).
          al_stockLevelId l' = ?sid t \<and> quantity l' = quantityAvailable (stockLevel t)"
    by (rule loopLines_monotone[OF sorted_filterAndSortSources
          distinct_filterAndSortSources[OF assms] lin sin lid tin tskip later])
  then show "\<exists>l'\<in>set (allocations (allocate this request sources)).
          al_stockLevelId l' = sl_id (stockLevel t) \<and> quantity l' = quantityAvailable (stockLevel t)"
    by (simp add: allocations_allocate)
qed

lemma ex_S2_lines:
  "allocations (allocate ex_allocator (ex_request 7 None None) [ex_L1, ex_L2]) =
     [makeLine ex_allocator ex_L2 5, makeLine ex_allocator ex_L1 2]"
  by (simp add: fefo_defs ex_defs)

theorem fefo_order_and_group_monotonicity_witness:
  "distinct (map (\<lambda>s. sl_id (stockLevel s)) [ex_L1, ex_L2]) \<and>
   makeLine ex_allocator ex_L1 2 \<in> set (allocations (allocate ex_allocator (ex_request 7 None None) [ex_L1, ex_L2])) \<and>
   passesFilters ex_allocator (ex_request 7 None None) ex_L2 \<and>
   isPreferred (ex_request 7 None None) ex_L1 = isPreferred (ex_request 7 None None) ex_L2 \<and>
   sourceExpiration ex_L1 = Some (20 * day_ms) \<and> sourceExpiration ex_L2 = Some (10 * day_ms) \<and>
   10 * day_ms < 20 * day_ms \<and>
   (\<exists>l'\<in>set (allocations (allocate ex_allocator (ex_request 7 None None) [ex_L1, ex_L2])).
      al_stockLevelId l' = sl_id (stockLevel ex_L2) \<and> quantity l' = quantityAvailable (stockLevel ex_L2))"
proof -
  have d: "distinct (map (\<lambda>s. sl_id (stockLevel s)) [ex_L1, ex_L2])"
    by (simp add: ex_defs)
  have h: "makeLine ex_allocator ex_L1 2 \<in> set (allocations (allocate ex_allocator (ex_request 7 None None) [ex_L1, ex_L2])) \<and>
     ex_L1 \<in> set [ex_L1, ex_L2] \<and>
     al_stockLevelId (makeLine ex_allocator ex_L1 2) = sl_id (stockLevel ex_L1) \<and>
     ex_L2 \<in> set [ex_L1, ex_L2] \<and>
     passesFilters ex_allocator (ex_request 7 None None) ex_L2 \<and>
     isPreferred (ex_request 7 None None) ex_L1 = isPreferred (ex_request 7 None None) ex_L2 \<and>
     sourceExpiration ex_L1 = Some (20 * day_ms) \<and> sourceExpiration ex_L2 = Some (10 * day_ms) \<and>
     10 * day_ms < 20 * day_ms"
    unfolding ex_S2_lines by (simp add: fefo_defs ex_defs)
  from fefo_order_and_group_monotonicity[OF d, of "ex_request 7 None None" ex_allocator]
  have "\<forall>l s t es et.
            l \<in> set (allocations (allocate ex_allocator (ex_request 7 None None) [ex_L1, ex_L2])) \<and>
            s \<in> set [ex_L1, ex_L2] \<and> al_stockLevelId l = sl_id (stockLevel s) \<and>
            t \<in> set [ex_L1, ex_L2] \<and> passesFilters ex_allocator (ex_request 7 None None) t \<and>
            isPreferred (ex_request 7 None None) s = isPreferred (ex_request 7 None None) t \<and>
            sourceExpiration s = Some es \<and> sourceExpiration t = Some et \<and> et < es
            \<longrightarrow> (\<exists>l'\<in>set (allocations (allocate ex_allocator (ex_request 7 None None) [ex_L1, ex_L2])).
                   al_stockLevelId l' = sl_id (stockLevel t) \<and>
                   quantity l' = quantityAvailable (stockLevel t))"
    by (elim conjE)
  then have "\<exists>l'\<in>set (allocations (allocate ex_allocator (ex_request 7 None None) [ex_L1, ex_L2])).
      al_stockLevelId l' = sl_id (stockLevel ex_L2) \<and> quantity l' = quantityAvailable (stockLevel ex_L2)"
    using h by blast
  with d h show ?thesis by blast
qed

text \<open>
  C1 as stated fails across preference groups: with \<open>A-01\<close> preferred, the request for 5
  units is served from lot \<open>L1\<close> at \<open>A-01\<close> alone, although lot \<open>L2\<close> at \<open>A-02\<close> expires
  earlier, passes the filters and has 5 units available.
\<close>

theorem fefo_preferred_location_counterexample:
  "map al_stockLevelId
     (allocations (allocate ex_allocator (ex_request 5 (Some [''A-01'']) None) [ex_L1, ex_L2])) =
     [sl_id (stockLevel ex_L1)] \<and>
   map quantity
     (allocations (allocate ex_allocator (ex_request 5 (Some [''A-01'']) None) [ex_L1, ex_L2])) = [5] \<and>
   sl_id (stockLevel ex_L1) \<noteq> sl_id (stockLevel ex_L2) \<and>
   passesFilters ex_allocator (ex_request 5 (Some [''A-01'']) None) ex_L2 \<and>
   quantityAvailable (stockLevel ex_L2) = 5 \<and>
   sourceExpiration ex_L2 = Some (10 * day_ms) \<and> sourceExpiration ex_L1 = Some (20 * day_ms) \<and>
   10 * day_ms < 20 * day_ms \<and>
   quantityAvailable (stockLevel ex_L1) + quantityAvailable (stockLevel ex_L2) \<ge> 5"
  by (simp add: fefo_defs ex_defs)

text \<open>
  C9 at the failing input. The request asks for at least 7 days to expiration and the
  allocator is built without options, as the reservation agent does; the lot expires in
  3 days and is allocated all the same, with no skipped source.
\<close>

theorem request_min_days_not_read:
  "req_minDaysToExpiration (ex_request 5 None (Some 7)) = Some 7 \<and>
   allocations (allocateWithFefo (ex_request 5 None (Some 7)) [ex_source ''SL3'' ''A-03'' ''L3'' 3 5] None 0) =
     [\<lparr> al_stockLevelId = ''SL3'', al_locationId = ''A-03'', al_lotBatchId = Some ''L3'',
        al_lotNumber = Some ''L3'', al_expirationDate = Some (3 * day_ms), quantity = 5,
        daysToExpiration = Some 3 \<rparr>] \<and>
   skippedSources (allocateWithFefo (ex_request 5 None (Some 7)) [ex_source ''SL3'' ''A-03'' ''L3'' 3 5] None 0) = []"
  by (simp add: fefo_defs ex_defs)


subsection \<open>The optimistic stock mutator\<close>

text \<open>
  What \<^verbatim>\<open>updateQuantities\<close> does on a stored row: on a version other than the expected
  one it throws the optimistic-lock error; otherwise it stores and returns the row with
  the deltas applied, \<open>available\<close> set to \<open>on_hand - reserved\<close>, the version
  incremented by one and the last-movement timestamp set to now.
\<close>

lemma updateQuantities_effect:
  assumes "db ident = Some current"
  shows "(rowVersion current \<noteq> expectedVersion \<longrightarrow>
            updateQuantities db now ident delta expectedVersion =
              Inl (OptimisticLockConflict expectedVersion (rowVersion current))) \<and>
         (rowVersion current = expectedVersion \<longrightarrow>
            (\<exists>updated.
               updateQuantities db now ident delta expectedVersion = Inr (updated, db(ident \<mapsto> updated)) \<and>
               quantityOnHand updated = quantityOnHand current + orZero (d_onHand delta) \<and>
               quantityReserved updated = quantityReserved current + orZero (d_reserved delta) \<and>
               quantityInbound updated = quantityInbound current + orZero (d_inbound delta) \<and>
               quantityOutbound updated = quantityOutbound current + orZero (d_outbound delta) \<and>
               quantityAvailable updated = quantityOnHand updated - quantityReserved updated \<and>
               rowVersion updated = rowVersion current + 1 \<and>
               lastMovementAt updated = Some now \<and>
               sl_id updated = sl_id current \<and> productId updated = productId current \<and>
               locationId updated = locationId current))"
  using assms by (simp add: updateQuantities_def Let_def)

text \<open>
  C2 at the failing input. Reserving 8 units on the row with 5 on hand and none reserved,
  with the right version, stores \<open>available = - 3\<close>, where \<open>max(0, on_hand - reserved)\<close>,
  the value of \<^verbatim>\<open>calculateAvailableQuantity\<close>, is 0. With a stale version the same call
  throws a plain error, which carries no error code.
\<close>

theorem updateQuantities_available_not_clamped:
  "map_sum id (quantityOnHand \<circ> fst) (reserve ex_db 1000 ''SL1'' 8 1) = Inr 5 \<and>
   map_sum id (quantityReserved \<circ> fst) (reserve ex_db 1000 ''SL1'' 8 1) = Inr 8 \<and>
   map_sum id (quantityAvailable \<circ> fst) (reserve ex_db 1000 ''SL1'' 8 1) = Inr (- 3) \<and>
   map_sum id (rowVersion \<circ> fst) (reserve ex_db 1000 ''SL1'' 8 1) = Inr 2 \<and>
   calculateAvailableQuantity 5 8 = 0 \<and>
   reserve ex_db 1000 ''SL1'' 8 7 = Inl (OptimisticLockConflict 7 1) \<and>
   errorCodeOf (OptimisticLockConflict 7 1) = None"
  by (simp add: reserve_def updateQuantities_def ex_db_def ex_stock_def noDelta_def orZero_def
      calculateAvailableQuantity_def errorCodeOf_def Let_def)

text \<open>
  C6 at the failing input. Taking 10 units from a row with 5 on hand, with the right
  version and no override of any kind, does not fail: the row is stored with
  \<open>on_hand = - 5\<close> and the next version.
\<close>

theorem updateQuantities_negative_on_hand:
  "map_sum id (quantityOnHand \<circ> fst) (decrementOnHand ex_db 1000 ''SL1'' 10 1) = Inr (- 5) \<and>
   map_sum id (rowVersion \<circ> fst) (decrementOnHand ex_db 1000 ''SL1'' 10 1) = Inr 2 \<and>
   decrementOnHand ex_db 1000 ''SL1'' 10 1 \<noteq> Inl (NegativeStockBlockedError ''P2'' ''A-01'' (- 5)) \<and>
   map_option quantityOnHand (ex_db ''SL1'') = Some 5"
  by (simp add: decrementOnHand_def updateQuantities_def ex_db_def ex_stock_def noDelta_def
      orZero_def Let_def)

subsection \<open>The outbox\<close>

text \<open>
  C5. For a stored outbox row in status \<open>PENDING\<close>, \<^verbatim>\<open>markAsFailed\<close> succeeds and stores
  the row with the retry count incremented by one and the error message recorded; if the
  incremented retry count is below the row's maximum the status stays \<open>PENDING\<close> and
  \<open>scheduled_at\<close> is \<open>now\<close> plus \<open>2 ^ retry_count\<close> seconds (in milliseconds), with the
  incremented count; otherwise the status is \<open>FAILED\<close>.
\<close>

theorem markAsFailed_transition:
  assumes "db ident = Some message" and "ob_status message = PENDING"
  shows "\<exists>updated.
           markAsFailed db now ident err = Inr (updated, db(ident \<mapsto> updated)) \<and>
           retryCount updated = retryCount message + 1 \<and>
           lastError updated = Some err \<and>
           maxRetries updated = maxRetries message \<and>
           (retryCount updated < maxRetries updated \<longrightarrow>
              ob_status updated = PENDING \<and>
              scheduledAt updated = now + 2 ^ retryCount updated * 1000) \<and>
           (\<not> retryCount updated < maxRetries updated \<longrightarrow> ob_status updated = FAILED)"
  using assms by (simp add: markAsFailed_def Let_def)

theorem markAsFailed_transition_witness:
  "[''M1'' \<mapsto> ex_outbox_row] ''M1'' = Some ex_outbox_row \<and> ob_status ex_outbox_row = PENDING \<and>
   (\<exists>updated.
      markAsFailed [''M1'' \<mapsto> ex_outbox_row] 0 ''M1'' ''Channel not available'' =
        Inr (updated, [''M1'' \<mapsto> updated]) \<and>
      retryCount updated = 2 \<and> retryCount updated < maxRetries updated \<and>
      ob_status updated = PENDING \<and> scheduledAt updated = 4000) \<and>
   [''M1'' \<mapsto> ex_outbox_row\<lparr> retryCount := 4 \<rparr>] ''M1'' = Some (ex_outbox_row\<lparr> retryCount := 4 \<rparr>) \<and>
   ob_status (ex_outbox_row\<lparr> retryCount := 4 \<rparr>) = PENDING \<and>
   (\<exists>updated.
      markAsFailed [''M1'' \<mapsto> ex_outbox_row\<lparr> retryCount := 4 \<rparr>] 0 ''M1'' ''Channel not available'' =
        Inr (updated, [''M1'' \<mapsto> updated]) \<and>
      retryCount updated = 5 \<and> \<not> retryCount updated < maxRetries updated \<and>
      ob_status updated = FAILED)"
proof -
  have row: "[''M1'' \<mapsto> ex_outbox_row] ''M1'' = Some ex_outbox_row" by simp
  have st: "ob_status ex_outbox_row = PENDING" by (simp add: ex_outbox_row_def)
  have row4: "[''M1'' \<mapsto> ex_outbox_row\<lparr> retryCount := 4 \<rparr>] ''M1'' =
      Some (ex_outbox_row\<lparr> retryCount := 4 \<rparr>)" by simp
  have st4: "ob_status (ex_outbox_row\<lparr> retryCount := 4 \<rparr>) = PENDING"
    by (simp add: ex_outbox_row_def)
  have first: "\<exists>updated.
      markAsFailed [''M1'' \<mapsto> ex_outbox_row] 0 ''M1'' ''Channel not available'' =
        Inr (updated, [''M1'' \<mapsto> updated]) \<and>
      retryCount updated = 2 \<and> retryCount updated < maxRetries updated \<and>
      ob_status updated = PENDING \<and> scheduledAt updated = 4000"
    using markAsFailed_transition[where db = "[''M1'' \<mapsto> ex_outbox_row]" and ident = "''M1''"
          and now = 0 and err = "''Channel not available''", OF row st]
    by (auto simp: ex_outbox_row_def)
  have last: "\<exists>updated.
      markAsFailed [''M1'' \<mapsto> ex_outbox_row\<lparr> retryCount := 4 \<rparr>] 0 ''M1'' ''Channel not available'' =
        Inr (updated, [''M1'' \<mapsto> updated]) \<and>
      retryCount updated = 5 \<and> \<not> retryCount updated < maxRetries updated \<and>
      ob_status updated = FAILED"
    using markAsFailed_transition[where db = "[''M1'' \<mapsto> ex_outbox_row\<lparr> retryCount := 4 \<rparr>]"
          and ident = "''M1''" and now = 0 and err = "''Channel not available''", OF row4 st4]
    by (auto simp: ex_outbox_row_def)
  from row st row4 st4 first last show ?thesis by blast
qed


subsection \<open>The slotting scorer\<close>

lemma js_insert_insort_key:
  assumes "\<And>a b. cmp a b \<le> 0 \<longleftrightarrow> f a \<le> f b"
  shows "js_insert cmp x xs = insort_key f x xs"
  by (induction xs) (simp_all add: assms)

lemma js_sort_sort_key:
  assumes "\<And>a b. cmp a b \<le> 0 \<longleftrightarrow> f a \<le> f b"
  shows "js_sort cmp xs = sort_key f xs"
  unfolding js_sort_def sort_key_def
  by (induction xs) (simp_all add: js_insert_insort_key[of cmp f, OF assms])

lemma scoreLocations_sort_key:
  "scoreLocations weights candidates context =
   sort_key (\<lambda>s. - score s) (scoredCandidates weights candidates context)"
  unfolding scoreLocations_def by (rule js_sort_sort_key) simp

lemmas slotting_defs = scoreLocations_def scoredCandidates_def scoreCandidate_def
  isLocationValid_def scoreAbcVelocity_def scoreProximity_def maxDistance_def scoreCapacity_def
  scoreTemperature_def scoreFefo_def scoreHazard_def DEFAULT_SLOTTING_WEIGHTS_def js_sort_def
  ex_candidate_def ex_location_def ex_context_def

text \<open>
  C7, as amended. The output of the scorer holds the scored valid candidates, in
  descending order of total score; candidates of equal score keep the order in which
  they were given (the sort is stable and reads nothing but the score). The ranking is a
  function of the inputs and the weights.
\<close>

theorem scoreLocations_ranking:
  "mset (scoreLocations weights candidates context) =
     mset (scoredCandidates weights candidates context) \<and>
   sorted_wrt (\<lambda>a b. score a \<ge> score b) (scoreLocations weights candidates context) \<and>
   (\<forall>k. filter (\<lambda>s. score s = k) (scoreLocations weights candidates context) =
        filter (\<lambda>s. score s = k) (scoredCandidates weights candidates context))"
proof (intro conjI allI)
  show "mset (scoreLocations weights candidates context) =
     mset (scoredCandidates weights candidates context)"
    by (simp add: scoreLocations_sort_key)
next
  have "sorted (map (\<lambda>s. - score s) (scoreLocations weights candidates context))"
    by (simp add: scoreLocations_sort_key)
  then show "sorted_wrt (\<lambda>a b. score a \<ge> score b) (scoreLocations weights candidates context)"
    by (simp add: sorted_map)
next
  fix k
  have "filter (\<lambda>s. - score s = - k) (scoreLocations weights candidates context) =
        filter (\<lambda>s. - score s = - k) (scoredCandidates weights candidates context)"
    unfolding scoreLocations_sort_key by (rule sort_key_stable)
  then show "filter (\<lambda>s. score s = k) (scoreLocations weights candidates context) =
        filter (\<lambda>s. score s = k) (scoredCandidates weights candidates context)"
    by simp
qed

theorem scoreLocations_ranking_witness:
  "map (loc_id \<circ> sc_location)
     (filter (\<lambda>s. score s = 0.64)
        (scoreLocations DEFAULT_SLOTTING_WEIGHTS [ex_candidate ''LOC-B'' 2, ex_candidate ''LOC-A'' 1] ex_context)) =
     [''LOC-B'', ''LOC-A'']"
proof -
  have scored: "map (loc_id \<circ> sc_location)
     (filter (\<lambda>s. score s = 0.64)
        (scoredCandidates DEFAULT_SLOTTING_WEIGHTS [ex_candidate ''LOC-B'' 2, ex_candidate ''LOC-A'' 1] ex_context)) =
     [''LOC-B'', ''LOC-A'']"
    by (simp add: slotting_defs)
  have stable: "filter (\<lambda>s. score s = 0.64)
        (scoreLocations DEFAULT_SLOTTING_WEIGHTS [ex_candidate ''LOC-B'' 2, ex_candidate ''LOC-A'' 1] ex_context) =
      filter (\<lambda>s. score s = 0.64)
        (scoredCandidates DEFAULT_SLOTTING_WEIGHTS [ex_candidate ''LOC-B'' 2, ex_candidate ''LOC-A'' 1] ex_context)"
    using scoreLocations_ranking[of DEFAULT_SLOTTING_WEIGHTS
        "[ex_candidate ''LOC-B'' 2, ex_candidate ''LOC-A'' 1]" ex_context]
    by blast
  show ?thesis unfolding stable by (rule scored)
qed

text \<open>
  C7 as stated fails on a tie: the two candidates have the same total score 0.64, and
  the one with the higher pick sequence, given first, is ranked first.
\<close>

theorem scoreLocations_tie_counterexample:
  "map (loc_id \<circ> sc_location)
     (scoreLocations DEFAULT_SLOTTING_WEIGHTS [ex_candidate ''LOC-B'' 2, ex_candidate ''LOC-A'' 1] ex_context) =
     [''LOC-B'', ''LOC-A''] \<and>
   map score
     (scoreLocations DEFAULT_SLOTTING_WEIGHTS [ex_candidate ''LOC-B'' 2, ex_candidate ''LOC-A'' 1] ex_context) =
     [0.64, 0.64] \<and>
   map (pickSequence \<circ> sc_location)
     (scoreLocations DEFAULT_SLOTTING_WEIGHTS [ex_candidate ''LOC-B'' 2, ex_candidate ''LOC-A'' 1] ex_context) =
     [Some 2, Some 1]"
  by (simp add: slotting_defs)


subsection \<open>The agent registry\<close>

lemma set_set_add: "set (set_add s x) = insert x (set s)"
  by (auto simp: set_add_def)

lemma set_foldl_set_add: "set (foldl set_add acc xs) = set acc \<union> set xs"
  by (induction xs arbitrary: acc) (auto simp: set_set_add)

lemma addSubscriptions_keeps:
  "subscribed subs t n \<Longrightarrow> subscribed (addSubscriptions m ts subs) t n"
proof (induction ts arbitrary: subs)
  case Nil
  then show ?case by simp
next
  case (Cons u rest)
  have "subscribed (subs(u \<mapsto> set_add (case subs u of None \<Rightarrow> [] | Some s \<Rightarrow> s) m)) t n"
    using Cons.prems by (auto simp: subscribed_def set_set_add split: option.splits)
  then show ?case using Cons.IH by simp
qed

lemma addSubscriptions_adds:
  "t \<in> set ts \<Longrightarrow> subscribed (addSubscriptions n ts subs) t n"
proof (induction ts arbitrary: subs)
  case Nil
  then show ?case by simp
next
  case (Cons u rest)
  show ?case
  proof (cases "t = u")
    case True
    have "subscribed (subs(u \<mapsto> set_add (case subs u of None \<Rightarrow> [] | Some s \<Rightarrow> s) n)) t n"
      using True by (simp add: subscribed_def set_set_add)
    then show ?thesis using addSubscriptions_keeps by simp
  next
    case False
    with Cons show ?thesis by simp
  qed
qed

lemma subscribed_agentNames:
  "subscribed (eventSubscriptions reg) t n \<Longrightarrow> n \<in> set (agentNamesForEvent reg t)"
  by (auto simp: subscribed_def agentNamesForEvent_def Let_def set_foldl_set_add split: option.splits)

lemma getAgentsForEvent_mem:
  "x \<in> set (getAgentsForEvent reg t) \<longleftrightarrow>
   (\<exists>n\<in>set (agentNamesForEvent reg t). agents reg n = Some x)"
proof -
  have "set (List.map_filter f ns) = {y. \<exists>n\<in>set ns. f n = Some y}" for f :: "string \<rightharpoonup> BaseAgent" and ns
    by (induction ns) (auto split: option.splits)
  then show ?thesis by (simp add: getAgentsForEvent_def)
qed

lemma isRegistered_register: "isRegistered (register a reg) a"
  using addSubscriptions_adds[of _ "subscribesTo a" "name a" "eventSubscriptions reg"]
  by (auto simp: isRegistered_def register_def list_all_iff subscribed_def split: option.splits)

lemma agents_unregister: "agents (unregister n reg) n = None"
  by (simp add: unregister_def split: option.splits)

text \<open>
  C10. Let \<open>a\<close> be registered and \<open>b\<close> have the same name. After \<open>register b\<close>, the name
  resolves to \<open>b\<close>; the subscription index still holds the name under every event type
  \<open>a\<close> subscribed to; and \<open>getAgentsForEvent t\<close> returns \<open>b\<close> for every \<open>t\<close> in the
  subscriptions of \<open>a\<close> or of \<open>b\<close>. After \<open>unregister\<close> of the name, the name resolves to
  nothing, and every agent that \<open>getAgentsForEvent\<close> returns is the agent of another
  name.
\<close>

theorem reregistration_keeps_stale_subscriptions:
  assumes "isRegistered reg a" and "name b = name a"
  shows "getAgent (register b reg) (name a) = Some b \<and>
         (\<forall>t\<in>set (subscribesTo a). subscribed (eventSubscriptions (register b reg)) t (name a)) \<and>
         (\<forall>t\<in>set (subscribesTo a) \<union> set (subscribesTo b). b \<in> set (getAgentsForEvent (register b reg) t)) \<and>
         getAgent (unregister (name a) (register b reg)) (name a) = None \<and>
         (\<forall>t x. x \<in> set (getAgentsForEvent (unregister (name a) (register b reg)) t) \<longrightarrow>
            (\<exists>n. n \<noteq> name a \<and> getAgent (unregister (name a) (register b reg)) n = Some x))"
proof (intro conjI ballI impI allI)
  show g: "getAgent (register b reg) (name a) = Some b"
    using assms(2) by (simp add: getAgent_def register_def)
  show stale: "subscribed (eventSubscriptions (register b reg)) t (name a)"
    if "t \<in> set (subscribesTo a)" for t
  proof -
    from assms(1) that have "subscribed (eventSubscriptions reg) t (name a)"
      by (auto simp: isRegistered_def list_all_iff subscribed_def)
    then show ?thesis by (simp add: register_def addSubscriptions_keeps)
  qed
  show "b \<in> set (getAgentsForEvent (register b reg) t)"
    if "t \<in> set (subscribesTo a) \<union> set (subscribesTo b)" for t
  proof -
    have "subscribed (eventSubscriptions (register b reg)) t (name a)"
    proof (cases "t \<in> set (subscribesTo a)")
      case True
      then show ?thesis by (rule stale)
    next
      case False
      with that have "t \<in> set (subscribesTo b)" by simp
      then show ?thesis using assms(2) by (simp add: register_def addSubscriptions_adds)
    qed
    then have "name a \<in> set (agentNamesForEvent (register b reg) t)"
      by (rule subscribed_agentNames)
    moreover have "agents (register b reg) (name a) = Some b"
      using g by (simp add: getAgent_def)
    ultimately show ?thesis unfolding getAgentsForEvent_mem by blast
  qed
  show "getAgent (unregister (name a) (register b reg)) (name a) = None"
    by (simp add: getAgent_def agents_unregister)
  show "\<exists>n. n \<noteq> name a \<and> getAgent (unregister (name a) (register b reg)) n = Some x"
    if x: "x \<in> set (getAgentsForEvent (unregister (name a) (register b reg)) t)" for t x
  proof -
    let ?r = "unregister (name a) (register b reg)"
    from x obtain n where n: "agents ?r n = Some x"
      unfolding getAgentsForEvent_mem by blast
    with agents_unregister[of "name a" "register b reg"] have "n \<noteq> name a" by auto
    with n show ?thesis by (auto simp: getAgent_def)
  qed
qed

lemmas registry_defs = register_def unregister_def getAgent_def getAgentsForEvent_def
  agentNamesForEvent_def emptyRegistry_def set_add_def set_delete_def
  ex_agent_a_def ex_agent_b_def ex_agent_c_def

theorem reregistration_keeps_stale_subscriptions_witness:
  "isRegistered (register ex_agent_a (register ex_agent_c emptyRegistry)) ex_agent_a \<and>
   name ex_agent_b = name ex_agent_a \<and>
   ''Inventory.MovementRecorded'' \<in> set (subscribesTo ex_agent_a) \<and>
   ''Inventory.MovementRecorded'' \<notin> set (subscribesTo ex_agent_b) \<and>
   subscribed
     (eventSubscriptions (register ex_agent_b (register ex_agent_a (register ex_agent_c emptyRegistry))))
     ''Inventory.MovementRecorded'' (name ex_agent_a) \<and>
   ex_agent_b \<in> set (getAgentsForEvent
                      (register ex_agent_b (register ex_agent_a (register ex_agent_c emptyRegistry)))
                      ''Inventory.MovementRecorded'') \<and>
   ex_agent_c \<in> set (getAgentsForEvent
                      (unregister (name ex_agent_a)
                         (register ex_agent_b (register ex_agent_a (register ex_agent_c emptyRegistry))))
                      ''Inventory.MovementRecorded'') \<and>
   (\<exists>n. n \<noteq> name ex_agent_a \<and>
        getAgent (unregister (name ex_agent_a)
                    (register ex_agent_b (register ex_agent_a (register ex_agent_c emptyRegistry)))) n =
          Some ex_agent_c)"
proof -
  let ?r0 = "register ex_agent_a (register ex_agent_c emptyRegistry)"
  have r: "isRegistered ?r0 ex_agent_a"
    by (rule isRegistered_register)
  have n: "name ex_agent_b = name ex_agent_a"
    by (simp add: ex_agent_a_def ex_agent_b_def)
  have s: "''Inventory.MovementRecorded'' \<in> set (subscribesTo ex_agent_a)"
    "''Inventory.MovementRecorded'' \<notin> set (subscribesTo ex_agent_b)"
    by (simp_all add: ex_agent_a_def ex_agent_b_def)
  have c: "ex_agent_c \<in> set (getAgentsForEvent (unregister (name ex_agent_a) (register ex_agent_b ?r0))
                      ''Inventory.MovementRecorded'')"
    by (simp add: registry_defs)
  note T = reregistration_keeps_stale_subscriptions[OF r n]
  from T s(1)
  have "subscribed (eventSubscriptions (register ex_agent_b ?r0))
          ''Inventory.MovementRecorded'' (name ex_agent_a)"
    by blast
  moreover from T s(1)
  have "ex_agent_b \<in> set (getAgentsForEvent (register ex_agent_b ?r0) ''Inventory.MovementRecorded'')"
    by blast
  moreover from T c
  have "\<exists>n. n \<noteq> name ex_agent_a \<and>
        getAgent (unregister (name ex_agent_a) (register ex_agent_b ?r0)) n = Some ex_agent_c"
    by blast
  ultimately show ?thesis using r n s c by blast
qed

subsection \<open>The agent runtime and the consumer\<close>

lemma executeAgent_object:
  "executeAgent cfg reg (AgentObject a) event ctx = Resolved None"
  by (simp add: executeAgent.simps getAgentArg_def)

lemma promiseAll_resolved: "promiseAll (map (\<lambda>x. Resolved (f x)) xs) = Resolved (map f xs)"
  by (induction xs) simp_all

lemma batch_results:
  "promiseAll (map (\<lambda>agent. executeAgent cfg reg (AgentObject agent) event ctx) batch) =
   Resolved (map (\<lambda>agent. None) batch)"
  using promiseAll_resolved[of "\<lambda>agent. None" batch] by (simp add: executeAgent_object)

lemma executeAgents_continue:
  assumes "concurrency cfg \<noteq> 0" and "continueOnError cfg"
  shows "executeAgents cfg reg ags event ctx = Resolved (map (\<lambda>agent. None) ags)"
proof (induction ags rule: length_induct)
  case (1 ags)
  show ?case
  proof (cases ags)
    case Nil
    then show ?thesis by (simp add: executeAgents.simps)
  next
    case (Cons a as)
    let ?c = "concurrency cfg"
    have "length (drop ?c ags) < length ags" using assms(1) Cons by simp
    with 1 have rest: "executeAgents cfg reg (drop ?c ags) event ctx =
        Resolved (map (\<lambda>agent. None) (drop ?c ags))" by blast
    have "map (\<lambda>agent. None :: AgentExecutionResult option) (take ?c ags) @
          map (\<lambda>agent. None) (drop ?c ags) = map (\<lambda>agent. None) ags"
      by (metis append_take_drop_id map_append)
    then show ?thesis
      using assms rest batch_results[of cfg reg event ctx "take ?c ags"]
      by (simp add: Cons[symmetric] executeAgents.simps(2)[of cfg reg a as event ctx, folded Cons])
  qed
qed

lemma executeAgents_stop:
  assumes "concurrency cfg \<noteq> 0" and "\<not> continueOnError cfg"
  shows "executeAgents cfg reg (a # as) event ctx = Rejected nullResultError"
proof -
  obtain n where n: "concurrency cfg = Suc n" using assms(1) by (cases "concurrency cfg") auto
  show ?thesis
    using assms batch_results[of cfg reg event ctx "take (concurrency cfg) (a # as)"]
    by (simp add: executeAgents.simps n)
qed

lemma executeForEvent_with_subscriber:
  assumes "concurrency cfg \<noteq> 0" and "getAgentsForEvent reg (event_type event) \<noteq> []"
  shows "executeForEvent cfg reg event ctx = Rejected nullResultError"
proof -
  obtain a as where ags: "getAgentsForEvent reg (event_type event) = a # as"
    using assms(2) by (cases "getAgentsForEvent reg (event_type event)") auto
  show ?thesis
  proof (cases "continueOnError cfg")
    case True
    from executeAgents_continue[OF assms(1) True, of reg "a # as" event ctx] ags
    show ?thesis by (simp add: executeForEvent_def Let_def)
  next
    case False
    from executeAgents_stop[OF assms(1) False, of reg a as event ctx] ags
    show ?thesis by (simp add: executeForEvent_def Let_def)
  qed
qed

lemma handleMessage_with_subscriber:
  assumes "content msg = Some event" and "getAgentsForEvent reg (event_type event) \<noteq> []"
  shows "handleMessage reg fault (Some msg) = onProcessingError msg"
proof -
  have "concurrency DEFAULT_CONFIG \<noteq> 0" by (simp add: DEFAULT_CONFIG_def)
  from executeForEvent_with_subscriber[OF this assms(2)] assms(1)
  show ?thesis by (simp add: handleMessage_def split: option.splits)
qed


text \<open>
  C3 at the failing input. A message whose content does not parse, delivered without
  the header \<open>x-retry-count\<close>, is negatively acknowledged with requeue after one second
  on every delivery; whatever the number of deliveries, it is never dead-lettered.
\<close>

theorem poison_message_never_dead_lettered:
  "handleMessage reg fault (Some ex_poison) = [NackRequeueAfter 1000] \<and>
   deliverUntilSettled fuel reg fault ex_poison = None"
proof
  show h: "handleMessage reg fault (Some ex_poison) = [NackRequeueAfter 1000]"
    by (simp add: handleMessage_def onProcessingError_def ex_poison_def)
  show "deliverUntilSettled fuel reg fault ex_poison = None"
    by (induction fuel) (simp_all add: h)
qed


end
